theory Spec2Isabelle
  imports Main "HOL-Library.Word"
begin

unbundle bit_operations_syntax

section \<open>Server tracing middleware of net/ghttp\<close>

text \<open>
  A shallow embedding of \<^verbatim>\<open>net/ghttp/ghttp_middleware_tracing.go\<close>: the middleware
  \<^verbatim>\<open>internalMiddlewareServerTracing\<close> and its helper \<^verbatim>\<open>getSpanContext\<close>.
  The request, its context, the tracer's spans and the body streams are explicit state;
  \<^verbatim>\<open>r.Middleware.Next()\<close> is a state transformer handed to the middleware.
  What the file imports from other packages (the propagator, the hex parser of trace
  identifiers, the identifier generator, the serialisers, the configuration) is a field
  of the environment record \<open>env\<close>, so every theorem holds for each of their
  implementations.
\<close>

subsection \<open>Constants of the file\<close>

definition tracingInstrumentName :: string where
  "tracingInstrumentName = ''github.com/gogf/gf/v2/net/ghttp.Server''"

definition tracingEventHttpRequest :: string where
  "tracingEventHttpRequest = ''http.request''"

definition tracingEventHttpRequestHeaders :: string where
  "tracingEventHttpRequestHeaders = ''http.request.headers''"

definition tracingEventHttpRequestBaggage :: string where
  "tracingEventHttpRequestBaggage = ''http.request.baggage''"

definition tracingEventHttpRequestBody :: string where
  "tracingEventHttpRequestBody = ''http.request.body''"

definition tracingEventHttpResponse :: string where
  "tracingEventHttpResponse = ''http.response''"

definition tracingEventHttpResponseHeaders :: string where
  "tracingEventHttpResponseHeaders = ''http.response.headers''"

definition tracingEventHttpResponseBody :: string where
  "tracingEventHttpResponseBody = ''http.response.body''"

subsection \<open>Trace identifiers and span contexts\<close>

type_synonym trace_id = "128 word"
type_synonym span_id = "64 word"
type_synonym error = string

text \<open>
  \<^verbatim>\<open>trace.SpanContextConfig\<close> has five exported fields; a Go composite literal leaves
  the fields it does not name at their zero values.
\<close>

record SpanContextConfig =
  TraceID :: trace_id
  SpanID :: span_id
  TraceFlags :: "8 word"
  TraceState :: string
  Remote :: bool

definition SpanContextConfig_zero :: SpanContextConfig where
  "SpanContextConfig_zero =
     \<lparr>TraceID = 0, SpanID = 0, TraceFlags = 0, TraceState = [], Remote = False\<rparr>"

record SpanContext =
  traceID :: trace_id
  spanID :: span_id
  traceFlags :: "8 word"
  traceState :: string
  remote :: bool

definition NewSpanContext :: "SpanContextConfig \<Rightarrow> SpanContext" where
  "NewSpanContext config =
     \<lparr>traceID = TraceID config, spanID = SpanID config, traceFlags = TraceFlags config,
      traceState = TraceState config, remote = Remote config\<rparr>"

definition IsSampled :: "SpanContext \<Rightarrow> bool" where
  "IsSampled sc = (traceFlags sc AND 1 = 1)"

subsection \<open>Contexts\<close>

text \<open>
  A \<^verbatim>\<open>context.Context\<close> is a chain of key/value pairs, the newest first;
  \<^verbatim>\<open>Value\<close> returns nil for a key the chain does not hold.
\<close>

datatype ctx_key = StrKey string | currentSpanKey | OtherKey string

datatype ctx_val =
    NilV
  | IntV int
  | StrV string
  | NonRecordingSpan SpanContext
  | RecordingSpan nat

type_synonym ctx = "(ctx_key \<times> ctx_val) list"

definition tracingMiddlewareHandled :: ctx_key where
  "tracingMiddlewareHandled = StrKey ''MiddlewareServerTracingHandled''"

fun Value :: "ctx \<Rightarrow> ctx_key \<Rightarrow> ctx_val" where
  "Value [] k = NilV"
| "Value ((k', v) # c) k = (if k' = k then v else Value c k)"

definition WithValue :: "ctx \<Rightarrow> ctx_key \<Rightarrow> ctx_val \<Rightarrow> ctx" where
  "WithValue c k v = (k, v) # c"

definition ContextWithSpan :: "ctx \<Rightarrow> ctx_val \<Rightarrow> ctx" where
  "ContextWithSpan c sp = WithValue c currentSpanKey sp"

definition ContextWithRemoteSpanContext :: "ctx \<Rightarrow> SpanContext \<Rightarrow> ctx" where
  "ContextWithRemoteSpanContext c sc = ContextWithSpan c (NonRecordingSpan (sc\<lparr>remote := True\<rparr>))"

subsection \<open>Headers\<close>

text \<open>
  \<^verbatim>\<open>http.Header\<close> is a map from canonical keys to lists of values. \<^verbatim>\<open>Get\<close>
  canonicalises the key it is given (first letter and every letter after a dash in upper
  case, the others in lower case) and returns the first value, or the empty string.
  Both keys this file passes are tokens, so the check for bytes that are not allowed in
  a header key is left out.
\<close>

type_synonym Header = "string \<rightharpoonup> string list"

definition toUpper :: "char \<Rightarrow> char" where
  "toUpper c = (let n = (of_char c :: nat) in if 97 \<le> n \<and> n \<le> 122 then char_of (n - 32) else c)"

definition toLower :: "char \<Rightarrow> char" where
  "toLower c = (let n = (of_char c :: nat) in if 65 \<le> n \<and> n \<le> 90 then char_of (n + 32) else c)"

fun canonical :: "bool \<Rightarrow> string \<Rightarrow> string" where
  "canonical upper [] = []"
| "canonical upper (c # cs) =
     (let c' = (if upper then toUpper c else toLower c) in c' # canonical (c' = CHR ''-'') cs)"

definition CanonicalMIMEHeaderKey :: "string \<Rightarrow> string" where
  "CanonicalMIMEHeaderKey s = canonical True s"

definition Get :: "Header \<Rightarrow> string \<Rightarrow> string" where
  "Get h key =
     (case h (CanonicalMIMEHeaderKey key) of
        None \<Rightarrow> []
      | Some [] \<Rightarrow> []
      | Some (v # _) \<Rightarrow> v)"

definition Del :: "Header \<Rightarrow> string \<Rightarrow> Header" where
  "Del h key = h(CanonicalMIMEHeaderKey key := None)"

subsection \<open>Spans, body streams and the state of a request\<close>

datatype Code = codes_Unset | codes_Error | codes_Ok

datatype SpanKind =
  SpanKindUnspecified | SpanKindInternal | SpanKindServer | SpanKindClient

record span =
  span_tracer :: "string \<times> string"
  span_name :: string
  span_kind :: SpanKind
  span_parent :: ctx_val
  span_trace_id :: trace_id
  span_span_id :: span_id
  span_attrs :: "(string \<times> string) list"
  span_events :: "(string \<times> (string \<times> string) list) list"
  span_status :: "Code \<times> string"
  span_ended :: bool

text \<open>
  A body is an \<^verbatim>\<open>io.ReadCloser\<close>: the bytes it still delivers, and the error it ends
  with (\<open>None\<close> for a plain end of file).
\<close>

record reader =
  remaining :: string
  fail :: "error option"

text \<open>
  Spans and readers are objects the request refers to, so they live in stores indexed by
  handles; a new object takes the next handle. \<open>idseq\<close> is the position of the
  identifier generator.
\<close>

record world =
  spans :: "nat \<Rightarrow> span"
  nspans :: nat
  streams :: "nat \<Rightarrow> reader"
  nstreams :: nat
  idseq :: nat

record Response =
  RHeader :: "Header option"
  BufferString :: string

record Request =
  Context :: ctx
  Header :: Header
  URL :: string
  Body :: nat
  GetError :: "error option"
  Response :: Response

record state =
  req :: Request
  world :: world

text \<open>
  What the middleware takes from other packages: \<^verbatim>\<open>gf.VERSION\<close>,
  \<^verbatim>\<open>gtrace.CommonLabels\<close>, \<^verbatim>\<open>gtrace.IsUsingDefaultProvider\<close>,
  \<^verbatim>\<open>gtrace.MaxContentLogSize\<close>, the \<^verbatim>\<open>Extract\<close> of the global propagator,
  \<^verbatim>\<open>trace.TraceIDFromHex\<close>, the identifier generators, and the renderings
  \<^verbatim>\<open>gconv.String(httputil.HeaderToMap(h))\<close>, \<^verbatim>\<open>gtrace.GetBaggageMap(ctx).String()\<close> and
  \<^verbatim>\<open>fmt.Sprintf("%+v", err)\<close>.
\<close>

record env =
  VERSION :: string
  CommonLabels :: "(string \<times> string) list"
  IsUsingDefaultProvider :: bool
  MaxContentLogSize :: nat
  Extract :: "ctx \<Rightarrow> Header \<Rightarrow> ctx"
  TraceIDFromHex :: "string \<Rightarrow> error + trace_id"
  GenTraceID :: "nat \<Rightarrow> trace_id"
  GenSpanID :: "nat \<Rightarrow> span_id"
  HeaderToMapString :: "Header \<Rightarrow> string"
  BaggageMapString :: "ctx \<Rightarrow> string"
  Sprintf_v :: "error \<Rightarrow> string"

subsection \<open>Library operations the middleware calls\<close>

text \<open>
  \<^verbatim>\<open>ioutil.ReadAll\<close> reads a stream to its end: it returns the bytes the stream
  delivered and the error that stopped it (nil at end of file), and leaves the stream
  drained.
\<close>

definition ReadAll :: "world \<Rightarrow> nat \<Rightarrow> string \<times> error option \<times> world" where
  "ReadAll W b =
     (let rd = streams W b
      in (remaining rd, fail rd, W\<lparr>streams := (streams W)(b := rd\<lparr>remaining := []\<rparr>)\<rparr>))"

text \<open>
  Modelled from the spec: \<^verbatim>\<open>utils.NewReadCloser\<close> (internal/utils, not in this
  file) "restores it as a fresh readable stream": a new reader over the given bytes that
  ends with a plain end of file. The flag asks for a reader that can be read once.
\<close>

definition NewReadCloser :: "world \<Rightarrow> string \<Rightarrow> bool \<Rightarrow> nat \<times> world" where
  "NewReadCloser W content repeatable =
     (nstreams W,
      W\<lparr>streams := (streams W)(nstreams W := \<lparr>remaining = content, fail = None\<rparr>),
        nstreams := Suc (nstreams W)\<rparr>)"

text \<open>
  Modelled from the spec: \<^verbatim>\<open>gstr.StrLimit\<close> (text/gstr, not in this file). "A body
  exceeding the configured maximum length is captured as the first N bytes followed by a
  truncation marker; a body at or under the limit is captured verbatim."
\<close>

definition StrLimit :: "string \<Rightarrow> nat \<Rightarrow> string \<Rightarrow> string" where
  "StrLimit str n suffix = (if n < length str then take n str @ suffix else str)"

text \<open>
  Modelled from the spec: \<^verbatim>\<open>tracing.NewSpanID\<close> (internal/tracing, not in this file)
  returns "a freshly generated span identifier": the next one of the generator, which
  moves on.
\<close>

definition NewSpanID :: "env \<Rightarrow> world \<Rightarrow> span_id \<times> world" where
  "NewSpanID E W = (GenSpanID E (idseq W), W\<lparr>idseq := Suc (idseq W)\<rparr>)"

text \<open>
  Modelled from the spec: the tracer and its spans (OpenTelemetry, not in this file).
  \<^verbatim>\<open>Start\<close> creates "a new span whose parent is derived from" the context it is given:
  the span that context carries, if any. The new span continues the trace of its parent
  ("the started span's trace identifier equals that value") and opens a trace of its own
  when the context carries no span. It returns the context carrying the new span. A span holds "a set of key-value pairs, a status (unset/ok/error with message),
  a list of events (each with a name and its own attribute set)".
\<close>

definition Start ::
  "env \<Rightarrow> world \<Rightarrow> string \<times> string \<Rightarrow> ctx \<Rightarrow> string \<Rightarrow> SpanKind \<Rightarrow> ctx \<times> nat \<times> world" where
  "Start E W tracer c spanName k =
     (let p = Value c currentSpanKey;
          tid = (case p of
                   NonRecordingSpan sc \<Rightarrow> traceID sc
                 | RecordingSpan h \<Rightarrow> span_trace_id (spans W h)
                 | _ \<Rightarrow> GenTraceID E (idseq W));
          sp = \<lparr>span_tracer = tracer, span_name = spanName, span_kind = k, span_parent = p,
                span_trace_id = tid, span_span_id = GenSpanID E (idseq W),
                span_attrs = [], span_events = [], span_status = (codes_Unset, []),
                span_ended = False\<rparr>;
          h = nspans W
      in (ContextWithSpan c (RecordingSpan h), h,
          W\<lparr>spans := (spans W)(h := sp), nspans := Suc h, idseq := Suc (idseq W)\<rparr>))"

definition SetAttributes :: "world \<Rightarrow> nat \<Rightarrow> (string \<times> string) list \<Rightarrow> world" where
  "SetAttributes W h kv =
     W\<lparr>spans := (spans W)(h := (spans W h)\<lparr>span_attrs := span_attrs (spans W h) @ kv\<rparr>)\<rparr>"

definition AddEvent :: "world \<Rightarrow> nat \<Rightarrow> string \<Rightarrow> (string \<times> string) list \<Rightarrow> world" where
  "AddEvent W h ev kv =
     W\<lparr>spans := (spans W)(h := (spans W h)\<lparr>span_events := span_events (spans W h) @ [(ev, kv)]\<rparr>)\<rparr>"

definition SetStatus :: "world \<Rightarrow> nat \<Rightarrow> Code \<Rightarrow> string \<Rightarrow> world" where
  "SetStatus W h code description =
     W\<lparr>spans := (spans W)(h := (spans W h)\<lparr>span_status := (code, description)\<rparr>)\<rparr>"

definition End :: "world \<Rightarrow> nat \<Rightarrow> world" where
  "End W h = W\<lparr>spans := (spans W)(h := (spans W h)\<lparr>span_ended := True\<rparr>)\<rparr>"

text \<open>The accessors of \<^verbatim>\<open>*Request\<close> the middleware uses.\<close>

definition SetCtx :: "Request \<Rightarrow> ctx \<Rightarrow> Request" where
  "SetCtx r c = r\<lparr>Context := c\<rparr>"

definition GetHeader :: "Request \<Rightarrow> string \<Rightarrow> string" where
  "GetHeader r key = Get (Header r) key"

subsection \<open>getSpanContext\<close>

definition getSpanContext :: "env \<Rightarrow> ctx \<Rightarrow> Header \<Rightarrow> world \<Rightarrow> ctx \<times> world" where
  "getSpanContext E c header W =
     (let traceID = Get header ''MF-X-TRACE-ID''
      in if traceID = [] then (Extract E c header, W)
         else case TraceIDFromHex E traceID of
                Inl err \<Rightarrow> (Extract E c header, W)
              | Inr generatedTraceID \<Rightarrow>
                  (let (sid, W') = NewSpanID E W
                   in (ContextWithRemoteSpanContext c
                         (NewSpanContext
                            (SpanContextConfig_zero\<lparr>TraceID := generatedTraceID, SpanID := sid\<rparr>)),
                       W')))"

subsection \<open>internalMiddlewareServerTracing\<close>

text \<open>
  \<open>Next\<close> is \<^verbatim>\<open>r.Middleware.Next()\<close>, the rest of the handler chain.
  \<^verbatim>\<open>defer span.End()\<close> runs when the function returns, on both paths after the span
  has been started.
\<close>

definition internalMiddlewareServerTracing :: "env \<Rightarrow> (state \<Rightarrow> state) \<Rightarrow> state \<Rightarrow> state" where
  "internalMiddlewareServerTracing E Next s =
     (let c = Context (req s)
      in if Value c tracingMiddlewareHandled \<noteq> NilV then Next s
         else
           let c = WithValue c tracingMiddlewareHandled (IntV 1);
               (pc, W) = getSpanContext E c (Header (req s)) (world s);
               (c, sp, W) =
                  Start E W (tracingInstrumentName, VERSION E) pc (URL (req s)) SpanKindServer;
               W = SetAttributes W sp (CommonLabels E);
               s = \<lparr>req = SetCtx (req s) c, world = W\<rparr>
           in if IsUsingDefaultProvider E
              then (let s = Next s in s\<lparr>world := End (world s) sp\<rparr>)
              else
                let reqAttrs =
                      [(tracingEventHttpRequestHeaders, HeaderToMapString E (Header (req s))),
                       (tracingEventHttpRequestBaggage, BaggageMapString E c)];
                    reqEncoding = GetHeader (req s) ''Content-Encoding'';
                    (reqAttrs, s) =
                      (if reqEncoding = []
                       then
                         let (reqBodyContentBytes, err, W) = ReadAll (world s) (Body (req s));
                             (b, W) = NewReadCloser W reqBodyContentBytes False
                         in (reqAttrs @
                               [(tracingEventHttpRequestBody,
                                 StrLimit reqBodyContentBytes (MaxContentLogSize E) ''...'')],
                             \<lparr>req = (req s)\<lparr>Body := b\<rparr>, world = W\<rparr>)
                       else (reqAttrs, s));
                    s = s\<lparr>world := AddEvent (world s) sp tracingEventHttpRequest reqAttrs\<rparr>;
                    s = Next s;
                    s = (case GetError (req s) of
                           Some err \<Rightarrow>
                             s\<lparr>world := SetStatus (world s) sp codes_Error (Sprintf_v E err)\<rparr>
                         | None \<Rightarrow> s);
                    respAttrs =
                      [(tracingEventHttpResponseHeaders,
                        HeaderToMapString E
                          (case RHeader (Response (req s)) of None \<Rightarrow> Map.empty | Some h \<Rightarrow> h))];
                    respEncoding =
                      (case RHeader (Response (req s)) of
                         None \<Rightarrow> []
                       | Some h \<Rightarrow> Get h ''Content-Encoding'');
                    respAttrs =
                      (if respEncoding = []
                       then respAttrs @
                              [(tracingEventHttpResponseBody,
                                StrLimit (BufferString (Response (req s))) (MaxContentLogSize E) ''...'')]
                       else respAttrs);
                    s = s\<lparr>world := AddEvent (world s) sp tracingEventHttpResponse respAttrs\<rparr>
                in s\<lparr>world := End (world s) sp\<rparr>)"

subsection \<open>The two halves of the instrumented path\<close>

text \<open>
  Lines 81 to 100 and lines 105 to 124 of the middleware (with the deferred
  \<^verbatim>\<open>span.End()\<close>), each as a function of the state it starts from. They are not in the
  source; lemma \<open>instrumented_path\<close> shows that the middleware runs the first, the rest of
  the chain and the second, in this order.
\<close>

definition request_capture :: "env \<Rightarrow> nat \<Rightarrow> ctx \<Rightarrow> state \<Rightarrow> state" where
  "request_capture E sp c s =
     (let reqAttrs =
            [(tracingEventHttpRequestHeaders, HeaderToMapString E (Header (req s))),
             (tracingEventHttpRequestBaggage, BaggageMapString E c)]
      in if Get (Header (req s)) ''Content-Encoding'' = []
         then
           let body = remaining (streams (world s) (Body (req s)));
               W = snd (NewReadCloser (snd (snd (ReadAll (world s) (Body (req s))))) body False)
           in \<lparr>req = (req s)\<lparr>Body := nstreams (world s)\<rparr>,
               world = AddEvent W sp tracingEventHttpRequest
                         (reqAttrs @ [(tracingEventHttpRequestBody,
                                       StrLimit body (MaxContentLogSize E) ''...'')])\<rparr>
         else s\<lparr>world := AddEvent (world s) sp tracingEventHttpRequest reqAttrs\<rparr>)"

definition response_capture :: "env \<Rightarrow> nat \<Rightarrow> state \<Rightarrow> state" where
  "response_capture E sp s =
     (let s = (case GetError (req s) of
                 Some err \<Rightarrow> s\<lparr>world := SetStatus (world s) sp codes_Error (Sprintf_v E err)\<rparr>
               | None \<Rightarrow> s);
          respAttrs =
            [(tracingEventHttpResponseHeaders,
              HeaderToMapString E
                (case RHeader (Response (req s)) of None \<Rightarrow> Map.empty | Some h \<Rightarrow> h))];
          respEncoding =
            (case RHeader (Response (req s)) of None \<Rightarrow> [] | Some h \<Rightarrow> Get h ''Content-Encoding'');
          respAttrs =
            (if respEncoding = []
             then respAttrs @
                    [(tracingEventHttpResponseBody,
                      StrLimit (BufferString (Response (req s))) (MaxContentLogSize E) ''...'')]
             else respAttrs);
          s = s\<lparr>world := AddEvent (world s) sp tracingEventHttpResponse respAttrs\<rparr>
      in s\<lparr>world := End (world s) sp\<rparr>)"

subsection \<open>Notions the properties are stated with\<close>

text \<open>
  \<open>delegates M s1 F\<close>: whatever the rest of the chain is, \<open>M\<close> runs it once, on the
  state \<open>s1\<close>, and finishes with \<open>F\<close> on the state the chain returns.
\<close>

definition delegates :: "((state \<Rightarrow> state) \<Rightarrow> state) \<Rightarrow> state \<Rightarrow> (state \<Rightarrow> state) \<Rightarrow> bool" where
  "delegates M s1 F = (\<forall>Next. M Next = F (Next s1))"

text \<open>The attributes of the last event of a span that has the given name.\<close>

definition event_attrs :: "world \<Rightarrow> nat \<Rightarrow> string \<Rightarrow> (string \<times> string) list option" where
  "event_attrs W h ev = map_of (rev (span_events (spans W h))) ev"

text \<open>The \<^verbatim>\<open>Content-Encoding\<close> of the response, as line 114 to 117 read it.\<close>

definition respEncoding :: "Request \<Rightarrow> string" where
  "respEncoding r =
     (case RHeader (Response r) of None \<Rightarrow> [] | Some h \<Rightarrow> Get h ''Content-Encoding'')"

subsection \<open>An environment and requests for the examples\<close>

text \<open>
  A propagator that reads one header, a parser of 32 lower-case hexadecimal digits that
  refuses the zero identifier, and counters as identifier generators.
\<close>

definition example_Extract :: "ctx \<Rightarrow> Header \<Rightarrow> ctx" where
  "example_Extract c h =
     (if Get h ''traceparent'' = [] then c
      else WithValue c (OtherKey ''traceparent'') (StrV (Get h ''traceparent'')))"

definition hexDigit :: "char \<Rightarrow> nat option" where
  "hexDigit c =
     map_of (zip ''0123456789abcdef'' [0, 1, 2, 3, 4, 5, 6, 7, 8, 9, 10, 11, 12, 13, 14, 15]) c"

fun decodeHex :: "nat \<Rightarrow> string \<Rightarrow> nat option" where
  "decodeHex acc [] = Some acc"
| "decodeHex acc (c # cs) =
     (case hexDigit c of None \<Rightarrow> None | Some d \<Rightarrow> decodeHex (16 * acc + d) cs)"

definition example_TraceIDFromHex :: "string \<Rightarrow> error + trace_id" where
  "example_TraceIDFromHex h =
     (if length h \<noteq> 32 then Inl ''hex encoded trace-id must have length equals to 32''
      else case decodeHex 0 h of
             None \<Rightarrow> Inl ''trace-id can only contain [0-9a-f] characters, all lowercase''
           | Some n \<Rightarrow> if n = 0 then Inl ''trace-id can not be all zero'' else Inr (of_nat n))"

definition example_env :: env where
  "example_env =
     \<lparr>VERSION = ''v2.0.0'',
      CommonLabels = [(''hostname'', ''node1'')],
      IsUsingDefaultProvider = False,
      MaxContentLogSize = 4,
      Extract = example_Extract,
      TraceIDFromHex = example_TraceIDFromHex,
      GenTraceID = (\<lambda>n. of_nat (n + 100)),
      GenSpanID = (\<lambda>n. of_nat (n + 7)),
      HeaderToMapString = (\<lambda>h. Get h ''Content-Type''),
      BaggageMapString = (\<lambda>c. ''map[]''),
      Sprintf_v = (\<lambda>e. e)\<rparr>"

definition example_default_env :: env where
  "example_default_env = example_env\<lparr>IsUsingDefaultProvider := True\<rparr>"

definition empty_span :: span where
  "empty_span =
     \<lparr>span_tracer = ([], []), span_name = [], span_kind = SpanKindUnspecified,
      span_parent = NilV, span_trace_id = 0, span_span_id = 0, span_attrs = [],
      span_events = [], span_status = (codes_Unset, []), span_ended = False\<rparr>"

text \<open>A world whose stream 0 delivers the given bytes and ends with the given error.\<close>

definition example_world :: "string \<Rightarrow> error option \<Rightarrow> world" where
  "example_world body e =
     \<lparr>spans = (\<lambda>h. empty_span),
      nspans = 0,
      streams = (\<lambda>b. \<lparr>remaining = [], fail = None\<rparr>)(0 := \<lparr>remaining = body, fail = e\<rparr>),
      nstreams = 1,
      idseq = 0\<rparr>"

definition example_request :: "ctx \<Rightarrow> Header \<Rightarrow> Request" where
  "example_request c h =
     \<lparr>Context = c, Header = h, URL = ''http://localhost/users'', Body = 0, GetError = None,
      Response = \<lparr>RHeader = None, BufferString = []\<rparr>\<rparr>"

text \<open>A handler that writes a response; one that fails.\<close>

definition example_handler :: "Header \<Rightarrow> string \<Rightarrow> state \<Rightarrow> state" where
  "example_handler h out s =
     s\<lparr>req := (req s)\<lparr>Response := \<lparr>RHeader = Some h, BufferString = out\<rparr>\<rparr>\<rparr>"

definition failing_handler :: "state \<Rightarrow> state" where
  "failing_handler s =
     s\<lparr>req := (req s)\<lparr>GetError := Some ''boom'',
                        Response := \<lparr>RHeader = Some Map.empty, BufferString = ''Internal Error''\<rparr>\<rparr>\<rparr>"

definition example_state :: "ctx \<Rightarrow> Header \<Rightarrow> string \<Rightarrow> error option \<Rightarrow> state" where
  "example_state c h body e = \<lparr>req = example_request c h, world = example_world body e\<rparr>"

section \<open>Properties\<close>

subsection \<open>Auxiliary facts\<close>

lemma canonical_trace_key: "CanonicalMIMEHeaderKey ''MF-X-TRACE-ID'' = ''Mf-X-Trace-Id''"
  by code_simp

lemma canonical_encoding_key: "CanonicalMIMEHeaderKey ''Content-Encoding'' = ''Content-Encoding''"
  by code_simp

lemma canonical_traceparent_key: "CanonicalMIMEHeaderKey ''traceparent'' = ''Traceparent''"
  by code_simp

lemma canonical_content_type_key: "CanonicalMIMEHeaderKey ''Content-Type'' = ''Content-Type''"
  by code_simp

lemma Get_Del_same: "Get (Del h key) key = []"
  by (simp add: Get_def Del_def)

lemma getSpanContext_keeps_marker:
  assumes "\<forall>c h. Value c tracingMiddlewareHandled \<noteq> NilV \<longrightarrow>
             Value (Extract E c h) tracingMiddlewareHandled \<noteq> NilV"
    and "Value c tracingMiddlewareHandled \<noteq> NilV"
  shows "Value (fst (getSpanContext E c header W)) tracingMiddlewareHandled \<noteq> NilV"
  using assms
  by (auto simp: getSpanContext_def Let_def NewSpanID_def ContextWithRemoteSpanContext_def
      ContextWithSpan_def WithValue_def tracingMiddlewareHandled_def split: sum.splits)

lemma getSpanContext_frame:
  "nspans (snd (getSpanContext E c header W)) = nspans W"
  "streams (snd (getSpanContext E c header W)) = streams W"
  "nstreams (snd (getSpanContext E c header W)) = nstreams W"
  "spans (snd (getSpanContext E c header W)) = spans W"
  by (auto simp: getSpanContext_def Let_def NewSpanID_def split: sum.splits)

lemma marked_path:
  "Value (Context (req s)) tracingMiddlewareHandled \<noteq> NilV \<Longrightarrow>
   internalMiddlewareServerTracing E Next s = Next s"
  by (simp add: internalMiddlewareServerTracing_def)

lemma fast_path:
  assumes "Value (Context (req s)) tracingMiddlewareHandled = NilV"
    and "IsUsingDefaultProvider E"
    and "getSpanContext E (WithValue (Context (req s)) tracingMiddlewareHandled (IntV 1))
           (Header (req s)) (world s) = (pc, W0)"
    and "Start E W0 (tracingInstrumentName, VERSION E) pc (URL (req s)) SpanKindServer = (c1, h, W1)"
  shows "internalMiddlewareServerTracing E Next s =
           (\<lambda>t. t\<lparr>world := End (world t) h\<rparr>)
             (Next \<lparr>req = (req s)\<lparr>Context := c1\<rparr>, world = SetAttributes W1 h (CommonLabels E)\<rparr>)"
  using assms by (simp add: internalMiddlewareServerTracing_def Let_def SetCtx_def)

lemma instrumented_path:
  assumes g: "Value (Context (req s)) tracingMiddlewareHandled = NilV"
    and d: "\<not> IsUsingDefaultProvider E"
    and sc: "getSpanContext E (WithValue (Context (req s)) tracingMiddlewareHandled (IntV 1))
           (Header (req s)) (world s) = (pc, W0)"
    and st: "Start E W0 (tracingInstrumentName, VERSION E) pc (URL (req s)) SpanKindServer = (c1, h, W1)"
  shows "internalMiddlewareServerTracing E Next s =
           response_capture E h
             (Next (request_capture E h c1
                \<lparr>req = (req s)\<lparr>Context := c1\<rparr>, world = SetAttributes W1 h (CommonLabels E)\<rparr>))"
  unfolding internalMiddlewareServerTracing_def
  apply (fold response_capture_def)
  apply (simp add: g d sc st SetCtx_def GetHeader_def ReadAll_def NewReadCloser_def Let_def
      request_capture_def)
  done

text \<open>
  The state the middleware has built when it has started its span (line 73), on a request
  that does not carry the marker: the span is the next one of the store.
\<close>

lemma span_started:
  assumes g: "Value (Context (req s)) tracingMiddlewareHandled = NilV"
  obtains pc W0 c1 W1 where
    "getSpanContext E (WithValue (Context (req s)) tracingMiddlewareHandled (IntV 1))
       (Header (req s)) (world s) = (pc, W0)"
    "Start E W0 (tracingInstrumentName, VERSION E) pc (URL (req s)) SpanKindServer
       = (c1, nspans (world s), W1)"
    "c1 = ContextWithSpan pc (RecordingSpan (nspans (world s)))"
    "streams W1 = streams (world s)" "nstreams W1 = nstreams (world s)"
    "nspans W1 = Suc (nspans (world s))"
    "span_events (spans W1 (nspans (world s))) = []"
    "span_attrs (spans W1 (nspans (world s))) = []"
    "span_status (spans W1 (nspans (world s))) = (codes_Unset, [])"
    "\<not> span_ended (spans W1 (nspans (world s)))"
    "span_parent (spans W1 (nspans (world s))) = Value pc currentSpanKey"
    "span_kind (spans W1 (nspans (world s))) = SpanKindServer"
    "span_name (spans W1 (nspans (world s))) = URL (req s)"
    "\<forall>sc. Value pc currentSpanKey = NonRecordingSpan sc \<longrightarrow>
        span_trace_id (spans W1 (nspans (world s))) = traceID sc"
proof -
  obtain pc W0 where sc:
    "getSpanContext E (WithValue (Context (req s)) tracingMiddlewareHandled (IntV 1))
       (Header (req s)) (world s) = (pc, W0)"
    by (cases "getSpanContext E (WithValue (Context (req s)) tracingMiddlewareHandled (IntV 1))
       (Header (req s)) (world s)") blast
  have fr: "nspans W0 = nspans (world s)" "streams W0 = streams (world s)"
    "nstreams W0 = nstreams (world s)"
    using getSpanContext_frame[of E "WithValue (Context (req s)) tracingMiddlewareHandled (IntV 1)"
        "Header (req s)" "world s"] by (simp_all add: sc)
  define R where "R = Start E W0 (tracingInstrumentName, VERSION E) pc (URL (req s)) SpanKindServer"
  show thesis
  proof (rule that[of pc W0 "fst R" "snd (snd R)"])
    show "getSpanContext E (WithValue (Context (req s)) tracingMiddlewareHandled (IntV 1))
       (Header (req s)) (world s) = (pc, W0)" by (rule sc)
  qed (simp_all add: R_def Start_def Let_def fr)
qed

lemma delegated_state:
  assumes g: "Value (Context (req s)) tracingMiddlewareHandled = NilV"
  obtains s1 F W1 pc where
    "delegates (\<lambda>Next. internalMiddlewareServerTracing E Next s) s1 F"
    "IsUsingDefaultProvider E \<Longrightarrow> F = (\<lambda>t. t\<lparr>world := End (world t) (nspans (world s))\<rparr>)"
    "IsUsingDefaultProvider E \<Longrightarrow>
       s1 = \<lparr>req = (req s)\<lparr>Context := ContextWithSpan pc (RecordingSpan (nspans (world s)))\<rparr>,
             world = SetAttributes W1 (nspans (world s)) (CommonLabels E)\<rparr>"
    "\<not> IsUsingDefaultProvider E \<Longrightarrow> F = response_capture E (nspans (world s))"
    "\<not> IsUsingDefaultProvider E \<Longrightarrow>
       s1 = request_capture E (nspans (world s)) (ContextWithSpan pc (RecordingSpan (nspans (world s))))
              \<lparr>req = (req s)\<lparr>Context := ContextWithSpan pc (RecordingSpan (nspans (world s)))\<rparr>,
               world = SetAttributes W1 (nspans (world s)) (CommonLabels E)\<rparr>"
    "fst (getSpanContext E (WithValue (Context (req s)) tracingMiddlewareHandled (IntV 1))
       (Header (req s)) (world s)) = pc"
    "streams W1 = streams (world s)" "nstreams W1 = nstreams (world s)"
    "nspans W1 = Suc (nspans (world s))"
    "span_events (spans W1 (nspans (world s))) = []"
    "span_attrs (spans W1 (nspans (world s))) = []"
    "span_status (spans W1 (nspans (world s))) = (codes_Unset, [])"
    "\<not> span_ended (spans W1 (nspans (world s)))"
    "span_parent (spans W1 (nspans (world s))) = Value pc currentSpanKey"
    "\<forall>sc. Value pc currentSpanKey = NonRecordingSpan sc \<longrightarrow>
        span_trace_id (spans W1 (nspans (world s))) = traceID sc"
proof (rule span_started[OF g, of E])
  fix pc W0 c1 W1
  let ?h = "nspans (world s)"
  let ?s0 = "\<lparr>req = (req s)\<lparr>Context := c1\<rparr>, world = SetAttributes W1 ?h (CommonLabels E)\<rparr>"
  assume a1: "getSpanContext E (WithValue (Context (req s)) tracingMiddlewareHandled (IntV 1))
       (Header (req s)) (world s) = (pc, W0)"
    and a2: "Start E W0 (tracingInstrumentName, VERSION E) pc (URL (req s)) SpanKindServer
       = (c1, nspans (world s), W1)"
    and a3: "c1 = ContextWithSpan pc (RecordingSpan (nspans (world s)))"
    and b: "streams W1 = streams (world s)" "nstreams W1 = nstreams (world s)"
    "nspans W1 = Suc (nspans (world s))"
    "span_events (spans W1 (nspans (world s))) = []"
    "span_attrs (spans W1 (nspans (world s))) = []"
    "span_status (spans W1 (nspans (world s))) = (codes_Unset, [])"
    "\<not> span_ended (spans W1 (nspans (world s)))"
    "span_parent (spans W1 (nspans (world s))) = Value pc currentSpanKey"
    and t: "\<forall>sc. Value pc currentSpanKey = NonRecordingSpan sc \<longrightarrow>
        span_trace_id (spans W1 (nspans (world s))) = traceID sc"
  have pc: "fst (getSpanContext E (WithValue (Context (req s)) tracingMiddlewareHandled (IntV 1))
       (Header (req s)) (world s)) = pc"
    by (simp add: a1)
  show thesis
  proof (cases "IsUsingDefaultProvider E")
    case True
    have d: "delegates (\<lambda>Next. internalMiddlewareServerTracing E Next s) ?s0
            (\<lambda>t. t\<lparr>world := End (world t) ?h\<rparr>)"
      unfolding delegates_def using fast_path[OF g True a1 a2] by simp
    show thesis
      by (rule that[of ?s0 "\<lambda>t. t\<lparr>world := End (world t) ?h\<rparr>" pc W1, OF d _ _ _ _ pc b t])
        (simp_all add: True a3)
  next
    case False
    have d: "delegates (\<lambda>Next. internalMiddlewareServerTracing E Next s)
            (request_capture E ?h c1 ?s0) (response_capture E ?h)"
      unfolding delegates_def using instrumented_path[OF g False a1 a2] by simp
    show thesis
      by (rule that[of "request_capture E ?h c1 ?s0" "response_capture E ?h" pc W1,
            OF d _ _ _ _ pc b t])
        (simp_all add: False a3)
  qed
qed

subsection \<open>The marker and nested installations\<close>

lemma delegated_keeps_marker:
  assumes g: "Value (Context (req s)) tracingMiddlewareHandled = NilV"
    and ex: "\<forall>c h. Value c tracingMiddlewareHandled \<noteq> NilV \<longrightarrow>
            Value (Extract E c h) tracingMiddlewareHandled \<noteq> NilV"
    and del: "delegates (\<lambda>Next. internalMiddlewareServerTracing E Next s) s1 F"
    and s1d: "IsUsingDefaultProvider E \<Longrightarrow>
       s1 = \<lparr>req = (req s)\<lparr>Context := ContextWithSpan pc (RecordingSpan (nspans (world s)))\<rparr>,
             world = SetAttributes W1 (nspans (world s)) (CommonLabels E)\<rparr>"
    and s1i: "\<not> IsUsingDefaultProvider E \<Longrightarrow>
       s1 = request_capture E (nspans (world s)) (ContextWithSpan pc (RecordingSpan (nspans (world s))))
              \<lparr>req = (req s)\<lparr>Context := ContextWithSpan pc (RecordingSpan (nspans (world s)))\<rparr>,
               world = SetAttributes W1 (nspans (world s)) (CommonLabels E)\<rparr>"
    and pc: "fst (getSpanContext E (WithValue (Context (req s)) tracingMiddlewareHandled (IntV 1))
       (Header (req s)) (world s)) = pc"
  shows "Value (Context (req s1)) tracingMiddlewareHandled \<noteq> NilV"
proof -
  let ?K = tracingMiddlewareHandled
  have "Value (WithValue (Context (req s)) ?K (IntV 1)) ?K \<noteq> NilV"
    by (simp add: WithValue_def)
  from getSpanContext_keeps_marker[OF ex this, of "Header (req s)" "world s"]
  have "Value pc ?K \<noteq> NilV" by (simp add: pc)
  then have c1: "Value (ContextWithSpan pc (RecordingSpan (nspans (world s)))) ?K \<noteq> NilV"
    by (simp add: ContextWithSpan_def WithValue_def tracingMiddlewareHandled_def)
  have "Context (req s1) = ContextWithSpan pc (RecordingSpan (nspans (world s)))"
  proof (cases "IsUsingDefaultProvider E")
    case True
    then show ?thesis using s1d by simp
  next
    case False
    then show ?thesis using s1i by (simp add: request_capture_def Let_def)
  qed
  with c1 show ?thesis by simp
qed

lemma request_capture_nspans: "nspans (world (request_capture E h c s)) = nspans (world s)"
  by (simp add: request_capture_def Let_def AddEvent_def ReadAll_def NewReadCloser_def)

lemma response_capture_nspans: "nspans (world (response_capture E h s)) = nspans (world s)"
  by (simp add: response_capture_def Let_def End_def AddEvent_def SetStatus_def
      split: option.splits)

lemma nested_once:
  assumes ex: "\<forall>c h. Value c tracingMiddlewareHandled \<noteq> NilV \<longrightarrow>
            Value (Extract E c h) tracingMiddlewareHandled \<noteq> NilV"
  shows "internalMiddlewareServerTracing E (internalMiddlewareServerTracing E Next) s =
         internalMiddlewareServerTracing E Next s"
proof (cases "Value (Context (req s)) tracingMiddlewareHandled = NilV")
  case False
  then show ?thesis by (simp add: marked_path)
next
  case True
  show ?thesis
  proof (rule delegated_state[OF True, of E])
    fix s1 F W1 pc
    assume del: "delegates (\<lambda>Next. internalMiddlewareServerTracing E Next s) s1 F"
      and s1d: "IsUsingDefaultProvider E \<Longrightarrow>
       s1 = \<lparr>req = (req s)\<lparr>Context := ContextWithSpan pc (RecordingSpan (nspans (world s)))\<rparr>,
             world = SetAttributes W1 (nspans (world s)) (CommonLabels E)\<rparr>"
      and s1i: "\<not> IsUsingDefaultProvider E \<Longrightarrow>
       s1 = request_capture E (nspans (world s)) (ContextWithSpan pc (RecordingSpan (nspans (world s))))
              \<lparr>req = (req s)\<lparr>Context := ContextWithSpan pc (RecordingSpan (nspans (world s)))\<rparr>,
               world = SetAttributes W1 (nspans (world s)) (CommonLabels E)\<rparr>"
      and pc: "fst (getSpanContext E (WithValue (Context (req s)) tracingMiddlewareHandled (IntV 1))
       (Header (req s)) (world s)) = pc"
    have "Value (Context (req s1)) tracingMiddlewareHandled \<noteq> NilV"
      by (rule delegated_keeps_marker[OF True ex del s1d s1i pc])
    then have "internalMiddlewareServerTracing E Next s1 = Next s1" by (rule marked_path)
    with del show ?thesis by (simp add: delegates_def)
  qed
qed

lemma one_span:
  assumes g: "Value (Context (req s)) tracingMiddlewareHandled = NilV"
    and nx: "\<forall>t. nspans (world (Next t)) = nspans (world t)"
  shows "nspans (world (internalMiddlewareServerTracing E Next s)) = Suc (nspans (world s))"
proof (rule delegated_state[OF g, of E])
  fix s1 F W1 pc
  assume del: "delegates (\<lambda>Next. internalMiddlewareServerTracing E Next s) s1 F"
    and Fd: "IsUsingDefaultProvider E \<Longrightarrow> F = (\<lambda>t. t\<lparr>world := End (world t) (nspans (world s))\<rparr>)"
    and s1d: "IsUsingDefaultProvider E \<Longrightarrow>
       s1 = \<lparr>req = (req s)\<lparr>Context := ContextWithSpan pc (RecordingSpan (nspans (world s)))\<rparr>,
             world = SetAttributes W1 (nspans (world s)) (CommonLabels E)\<rparr>"
    and Fi: "\<not> IsUsingDefaultProvider E \<Longrightarrow> F = response_capture E (nspans (world s))"
    and s1i: "\<not> IsUsingDefaultProvider E \<Longrightarrow>
       s1 = request_capture E (nspans (world s)) (ContextWithSpan pc (RecordingSpan (nspans (world s))))
              \<lparr>req = (req s)\<lparr>Context := ContextWithSpan pc (RecordingSpan (nspans (world s)))\<rparr>,
               world = SetAttributes W1 (nspans (world s)) (CommonLabels E)\<rparr>"
    and n1: "nspans W1 = Suc (nspans (world s))"
  have a: "nspans (world s1) = Suc (nspans (world s))"
  proof (cases "IsUsingDefaultProvider E")
    case True
    then show ?thesis using s1d n1 by (simp add: SetAttributes_def)
  next
    case False
    then show ?thesis using s1i n1 by (simp add: request_capture_nspans SetAttributes_def)
  qed
  have b: "nspans (world (F t)) = nspans (world t)" for t
  proof (cases "IsUsingDefaultProvider E")
    case True
    then show ?thesis using Fd by (simp add: End_def)
  next
    case False
    then show ?thesis using Fi by (simp add: response_capture_nspans)
  qed
  from del have "internalMiddlewareServerTracing E Next s = F (Next s1)"
    by (simp add: delegates_def)
  with a b nx show ?thesis by simp
qed

text \<open>
  C1. On a request whose context carries the marker \<^verbatim>\<open>tracingMiddlewareHandled\<close> the
  middleware is the rest of the chain and nothing else: no span is started, nothing is
  recorded, the context is not rewritten. So a second installation nested in the first
  does nothing (as long as the propagator does not erase the marker), and two nested
  installations start exactly one span on a request that did not carry the marker, when
  the rest of the chain starts none.
\<close>

theorem marker_skips_tracing:
  "(Value (Context (req s)) tracingMiddlewareHandled \<noteq> NilV \<longrightarrow>
      internalMiddlewareServerTracing E Next s = Next s) \<and>
   ((\<forall>c h. Value c tracingMiddlewareHandled \<noteq> NilV \<longrightarrow>
            Value (Extract E c h) tracingMiddlewareHandled \<noteq> NilV) \<longrightarrow>
      internalMiddlewareServerTracing E (internalMiddlewareServerTracing E Next) s =
      internalMiddlewareServerTracing E Next s) \<and>
   ((\<forall>c h. Value c tracingMiddlewareHandled \<noteq> NilV \<longrightarrow>
            Value (Extract E c h) tracingMiddlewareHandled \<noteq> NilV) \<and>
    Value (Context (req s)) tracingMiddlewareHandled = NilV \<and>
    (\<forall>t. nspans (world (Next t)) = nspans (world t)) \<longrightarrow>
      nspans (world (internalMiddlewareServerTracing E (internalMiddlewareServerTracing E Next) s)) =
      Suc (nspans (world s)))"
proof (intro conjI impI)
  assume "Value (Context (req s)) tracingMiddlewareHandled \<noteq> NilV"
  then show "internalMiddlewareServerTracing E Next s = Next s" by (rule marked_path)
next
  assume "\<forall>c h. Value c tracingMiddlewareHandled \<noteq> NilV \<longrightarrow>
            Value (Extract E c h) tracingMiddlewareHandled \<noteq> NilV"
  then show "internalMiddlewareServerTracing E (internalMiddlewareServerTracing E Next) s =
      internalMiddlewareServerTracing E Next s" by (rule nested_once)
next
  assume a: "(\<forall>c h. Value c tracingMiddlewareHandled \<noteq> NilV \<longrightarrow>
            Value (Extract E c h) tracingMiddlewareHandled \<noteq> NilV) \<and>
    Value (Context (req s)) tracingMiddlewareHandled = NilV \<and>
    (\<forall>t. nspans (world (Next t)) = nspans (world t))"
  then have "internalMiddlewareServerTracing E (internalMiddlewareServerTracing E Next) s =
      internalMiddlewareServerTracing E Next s" by (intro nested_once) blast
  moreover have "nspans (world (internalMiddlewareServerTracing E Next s)) = Suc (nspans (world s))"
    using a by (intro one_span) blast+
  ultimately show "nspans (world (internalMiddlewareServerTracing E (internalMiddlewareServerTracing E Next) s)) =
      Suc (nspans (world s))" by simp
qed

lemma example_Extract_keeps_marker:
  "\<forall>c h. Value c tracingMiddlewareHandled \<noteq> NilV \<longrightarrow>
         Value (Extract example_env c h) tracingMiddlewareHandled \<noteq> NilV"
  by (simp add: example_env_def example_Extract_def WithValue_def tracingMiddlewareHandled_def)

theorem marker_skips_tracing_witness:
  "Value (Context (req (example_state [(tracingMiddlewareHandled, IntV 1)] Map.empty ''hi'' None)))
     tracingMiddlewareHandled \<noteq> NilV \<and>
   internalMiddlewareServerTracing example_env failing_handler
     (example_state [(tracingMiddlewareHandled, IntV 1)] Map.empty ''hi'' None) =
   failing_handler (example_state [(tracingMiddlewareHandled, IntV 1)] Map.empty ''hi'' None) \<and>
   Value (Context (req (example_state [] Map.empty ''hi'' None))) tracingMiddlewareHandled = NilV \<and>
   internalMiddlewareServerTracing example_env
     (internalMiddlewareServerTracing example_env failing_handler)
     (example_state [] Map.empty ''hi'' None) =
   internalMiddlewareServerTracing example_env failing_handler
     (example_state [] Map.empty ''hi'' None) \<and>
   nspans (world (internalMiddlewareServerTracing example_env
     (internalMiddlewareServerTracing example_env failing_handler)
     (example_state [] Map.empty ''hi'' None))) = Suc 0"
proof -
  let ?S1 = "example_state [(tracingMiddlewareHandled, IntV 1)] Map.empty ''hi'' None"
  let ?S0 = "example_state [] Map.empty ''hi'' None"
  have h1: "Value (Context (req ?S1)) tracingMiddlewareHandled \<noteq> NilV"
    by (simp add: example_state_def example_request_def)
  have h0: "Value (Context (req ?S0)) tracingMiddlewareHandled = NilV"
    by (simp add: example_state_def example_request_def)
  have nx: "\<forall>t. nspans (world (failing_handler t)) = nspans (world t)"
    by (simp add: failing_handler_def)
  have n0: "nspans (world ?S0) = 0"
    by (simp add: example_state_def example_world_def)
  from marker_skips_tracing[of ?S1 example_env failing_handler] h1
  have a: "internalMiddlewareServerTracing example_env failing_handler ?S1 = failing_handler ?S1"
    by blast
  from marker_skips_tracing[of ?S0 example_env failing_handler] example_Extract_keeps_marker h0 nx
  have b: "internalMiddlewareServerTracing example_env
       (internalMiddlewareServerTracing example_env failing_handler) ?S0 =
     internalMiddlewareServerTracing example_env failing_handler ?S0"
    and c: "nspans (world (internalMiddlewareServerTracing example_env
       (internalMiddlewareServerTracing example_env failing_handler) ?S0)) = Suc (nspans (world ?S0))"
    by blast+
  from h1 a h0 b c n0 show ?thesis by simp
qed

subsection \<open>What the two halves change\<close>

lemma SetAttributes_frame:
  "span_parent (spans (SetAttributes W h kv) h') = span_parent (spans W h')"
  "span_trace_id (spans (SetAttributes W h kv) h') = span_trace_id (spans W h')"
  "span_events (spans (SetAttributes W h kv) h') = span_events (spans W h')"
  "span_status (spans (SetAttributes W h kv) h') = span_status (spans W h')"
  "span_ended (spans (SetAttributes W h kv) h') = span_ended (spans W h')"
  "streams (SetAttributes W h kv) = streams W"
  "nstreams (SetAttributes W h kv) = nstreams W"
  "nspans (SetAttributes W h kv) = nspans W"
  by (simp_all add: SetAttributes_def)

lemma request_capture_frame:
  "Context (req (request_capture E h c s)) = Context (req s)"
  "span_parent (spans (world (request_capture E h c s)) h') = span_parent (spans (world s) h')"
  "span_trace_id (spans (world (request_capture E h c s)) h') = span_trace_id (spans (world s) h')"
  "span_status (spans (world (request_capture E h c s)) h') = span_status (spans (world s) h')"
  "span_ended (spans (world (request_capture E h c s)) h') = span_ended (spans (world s) h')"
  by (simp_all add: request_capture_def Let_def AddEvent_def ReadAll_def NewReadCloser_def)

lemma request_capture_events:
  "span_events (spans (world (request_capture E h c s)) h) =
     span_events (spans (world s) h) @
     [(tracingEventHttpRequest,
       [(tracingEventHttpRequestHeaders, HeaderToMapString E (Header (req s))),
        (tracingEventHttpRequestBaggage, BaggageMapString E c)] @
       (if Get (Header (req s)) ''Content-Encoding'' = []
        then [(tracingEventHttpRequestBody,
               StrLimit (remaining (streams (world s) (Body (req s)))) (MaxContentLogSize E) ''...'')]
        else []))]"
  by (simp add: request_capture_def Let_def AddEvent_def ReadAll_def NewReadCloser_def)

lemma request_capture_body:
  "Get (Header (req s)) ''Content-Encoding'' = [] \<Longrightarrow>
     streams (world (request_capture E h c s)) (Body (req (request_capture E h c s))) =
       \<lparr>remaining = remaining (streams (world s) (Body (req s))), fail = None\<rparr>"
  by (simp add: request_capture_def Let_def AddEvent_def ReadAll_def NewReadCloser_def)

lemma request_capture_encoded:
  "Get (Header (req s)) ''Content-Encoding'' \<noteq> [] \<Longrightarrow>
     req (request_capture E h c s) = req s \<and>
     streams (world (request_capture E h c s)) = streams (world s) \<and>
     nstreams (world (request_capture E h c s)) = nstreams (world s)"
  by (simp add: request_capture_def Let_def AddEvent_def)

lemma response_capture_req: "req (response_capture E h t) = req t"
  by (simp add: response_capture_def Let_def split: option.splits)

lemma response_capture_events:
  "span_events (spans (world (response_capture E h t)) h) =
     span_events (spans (world t) h) @
     [(tracingEventHttpResponse,
       [(tracingEventHttpResponseHeaders,
         HeaderToMapString E (case RHeader (Response (req t)) of None \<Rightarrow> Map.empty | Some x \<Rightarrow> x))] @
       (if respEncoding (req t) = []
        then [(tracingEventHttpResponseBody,
               StrLimit (BufferString (Response (req t))) (MaxContentLogSize E) ''...'')]
        else []))]"
  by (simp add: response_capture_def Let_def AddEvent_def End_def SetStatus_def respEncoding_def
      split: option.splits)

lemma response_capture_status:
  "span_status (spans (world (response_capture E h t)) h) =
     (case GetError (req t) of
        Some err \<Rightarrow> (codes_Error, Sprintf_v E err)
      | None \<Rightarrow> span_status (spans (world t) h))"
  by (simp add: response_capture_def Let_def AddEvent_def End_def SetStatus_def
      split: option.splits)

lemma response_capture_ended: "span_ended (spans (world (response_capture E h t)) h)"
  by (simp add: response_capture_def Let_def AddEvent_def End_def SetStatus_def
      split: option.splits)

lemma event_attrs_last:
  "span_events (spans W h) = evs @ [(ev, kv)] \<Longrightarrow> event_attrs W h ev = Some kv"
  by (simp add: event_attrs_def)

subsection \<open>getSpanContext\<close>

lemma getSpanContext_custom:
  assumes "Get header ''MF-X-TRACE-ID'' \<noteq> []"
    and "TraceIDFromHex E (Get header ''MF-X-TRACE-ID'') = Inr tid"
  shows "getSpanContext E c header W =
           (ContextWithSpan c (NonRecordingSpan
              \<lparr>traceID = tid, spanID = GenSpanID E (idseq W), traceFlags = 0,
               traceState = [], remote = True\<rparr>),
            W\<lparr>idseq := Suc (idseq W)\<rparr>)"
  using assms
  by (simp add: getSpanContext_def Let_def NewSpanID_def ContextWithRemoteSpanContext_def
      NewSpanContext_def SpanContextConfig_zero_def)

lemma getSpanContext_fallback:
  assumes "Get header ''MF-X-TRACE-ID'' = [] \<or>
           (\<exists>err. TraceIDFromHex E (Get header ''MF-X-TRACE-ID'') = Inl err)"
  shows "getSpanContext E c header W = (Extract E c header, W)"
  using assms by (auto simp: getSpanContext_def Let_def)

lemma example_parse_valid:
  "example_TraceIDFromHex ''00000000000000000000000000000abc'' = Inr 0xabc"
  by (simp add: example_TraceIDFromHex_def hexDigit_def)

lemma example_parse_invalid:
  "example_TraceIDFromHex ''not-a-trace-id'' =
     Inl ''hex encoded trace-id must have length equals to 32''"
  by (simp add: example_TraceIDFromHex_def)

lemma example_custom_header:
  "Get [''Mf-X-Trace-Id'' \<mapsto> [v]] ''MF-X-TRACE-ID'' = v"
  by (simp add: Get_def canonical_trace_key)

lemma response_capture_frame:
  "span_parent (spans (world (response_capture E h t)) h') = span_parent (spans (world t) h')"
  "span_trace_id (spans (world (response_capture E h t)) h') = span_trace_id (spans (world t) h')"
  by (simp_all add: response_capture_def Let_def AddEvent_def End_def SetStatus_def
      split: option.splits)

text \<open>
  C2. When the header \<^verbatim>\<open>MF-X-TRACE-ID\<close> holds a value that
  \<^verbatim>\<open>trace.TraceIDFromHex\<close> accepts, \<^verbatim>\<open>getSpanContext\<close> returns the context with
  a remote parent of exactly that trace identifier and the span identifier the generator
  yields next (the generator moves on). The middleware then starts a span, the next one
  of the store: it runs the rest of the chain once, on a request whose context carries
  that span, and the span has this remote parent and its trace identifier. What the
  middleware does after the chain (ending the span, or recording the response and ending
  the span) leaves both as the chain returns them.
\<close>

theorem custom_trace_id_continues_trace:
  assumes hdr: "Get (Header (req s)) ''MF-X-TRACE-ID'' \<noteq> []"
    and parse: "TraceIDFromHex E (Get (Header (req s)) ''MF-X-TRACE-ID'') = Inr tid"
    and g: "Value (Context (req s)) tracingMiddlewareHandled = NilV"
  shows "getSpanContext E c (Header (req s)) W =
           (ContextWithSpan c (NonRecordingSpan
              \<lparr>traceID = tid, spanID = GenSpanID E (idseq W), traceFlags = 0,
               traceState = [], remote = True\<rparr>),
            W\<lparr>idseq := Suc (idseq W)\<rparr>) \<and>
         (\<exists>s1. delegates (\<lambda>Next. internalMiddlewareServerTracing E Next s) s1
                  (if IsUsingDefaultProvider E
                   then (\<lambda>t. t\<lparr>world := End (world t) (nspans (world s))\<rparr>)
                   else response_capture E (nspans (world s))) \<and>
            Value (Context (req s1)) currentSpanKey = RecordingSpan (nspans (world s)) \<and>
            nspans (world s1) = Suc (nspans (world s)) \<and>
            span_parent (spans (world s1) (nspans (world s))) =
              NonRecordingSpan
                \<lparr>traceID = tid, spanID = GenSpanID E (idseq (world s)), traceFlags = 0,
                 traceState = [], remote = True\<rparr> \<and>
            span_trace_id (spans (world s1) (nspans (world s))) = tid \<and>
            (\<forall>Next.
               span_parent (spans (world (internalMiddlewareServerTracing E Next s)) (nspans (world s))) =
               span_parent (spans (world (Next s1)) (nspans (world s))) \<and>
               span_trace_id (spans (world (internalMiddlewareServerTracing E Next s)) (nspans (world s))) =
               span_trace_id (spans (world (Next s1)) (nspans (world s)))))"
proof
  show "getSpanContext E c (Header (req s)) W =
           (ContextWithSpan c (NonRecordingSpan
              \<lparr>traceID = tid, spanID = GenSpanID E (idseq W), traceFlags = 0,
               traceState = [], remote = True\<rparr>),
            W\<lparr>idseq := Suc (idseq W)\<rparr>)"
    by (rule getSpanContext_custom[OF hdr parse])
next
  let ?h = "nspans (world s)"
  let ?M = "internalMiddlewareServerTracing E"
  let ?sc = "\<lparr>traceID = tid, spanID = GenSpanID E (idseq (world s)), traceFlags = 0,
                 traceState = [], remote = True\<rparr>"
  let ?F = "if IsUsingDefaultProvider E then (\<lambda>t. t\<lparr>world := End (world t) ?h\<rparr>)
            else response_capture E ?h"
  show "\<exists>s1. delegates (\<lambda>Next. ?M Next s) s1 ?F \<and>
            Value (Context (req s1)) currentSpanKey = RecordingSpan ?h \<and>
            nspans (world s1) = Suc ?h \<and>
            span_parent (spans (world s1) ?h) = NonRecordingSpan ?sc \<and>
            span_trace_id (spans (world s1) ?h) = tid \<and>
            (\<forall>Next.
               span_parent (spans (world (?M Next s)) ?h) = span_parent (spans (world (Next s1)) ?h) \<and>
               span_trace_id (spans (world (?M Next s)) ?h) =
               span_trace_id (spans (world (Next s1)) ?h))"
  proof (rule delegated_state[OF g, of E])
    fix s1 F W1 pc
    assume del: "delegates (\<lambda>Next. ?M Next s) s1 F"
      and Fd: "IsUsingDefaultProvider E \<Longrightarrow> F = (\<lambda>t. t\<lparr>world := End (world t) ?h\<rparr>)"
      and s1d: "IsUsingDefaultProvider E \<Longrightarrow>
         s1 = \<lparr>req = (req s)\<lparr>Context := ContextWithSpan pc (RecordingSpan ?h)\<rparr>,
               world = SetAttributes W1 ?h (CommonLabels E)\<rparr>"
      and Fi: "\<not> IsUsingDefaultProvider E \<Longrightarrow> F = response_capture E ?h"
      and s1i: "\<not> IsUsingDefaultProvider E \<Longrightarrow>
         s1 = request_capture E ?h (ContextWithSpan pc (RecordingSpan ?h))
              \<lparr>req = (req s)\<lparr>Context := ContextWithSpan pc (RecordingSpan ?h)\<rparr>,
               world = SetAttributes W1 ?h (CommonLabels E)\<rparr>"
      and pc: "fst (getSpanContext E (WithValue (Context (req s)) tracingMiddlewareHandled (IntV 1))
                 (Header (req s)) (world s)) = pc"
      and n1: "nspans W1 = Suc ?h"
      and par: "span_parent (spans W1 ?h) = Value pc currentSpanKey"
      and tr: "\<forall>sc. Value pc currentSpanKey = NonRecordingSpan sc \<longrightarrow>
                 span_trace_id (spans W1 ?h) = traceID sc"
    have F: "F = ?F"
      using Fd Fi by (cases "IsUsingDefaultProvider E") simp_all
    have "pc = ContextWithSpan (WithValue (Context (req s)) tracingMiddlewareHandled (IntV 1))
                 (NonRecordingSpan ?sc)"
      using pc getSpanContext_custom[OF hdr parse,
          of "WithValue (Context (req s)) tracingMiddlewareHandled (IntV 1)" "world s"] by simp
    then have v: "Value pc currentSpanKey = NonRecordingSpan ?sc"
      by (simp add: ContextWithSpan_def WithValue_def)
    have c: "Context (req s1) = ContextWithSpan pc (RecordingSpan ?h)"
      and p: "span_parent (spans (world s1) ?h) = span_parent (spans W1 ?h)"
      and i: "span_trace_id (spans (world s1) ?h) = span_trace_id (spans W1 ?h)"
      and n: "nspans (world s1) = nspans W1"
      using s1d s1i
      by (cases "IsUsingDefaultProvider E";
          simp add: request_capture_frame request_capture_nspans SetAttributes_frame)+
    have a1: "Value (Context (req s1)) currentSpanKey = RecordingSpan ?h"
      by (simp add: c ContextWithSpan_def WithValue_def)
    have a2: "nspans (world s1) = Suc ?h"
      by (simp add: n n1)
    have a3: "span_parent (spans (world s1) ?h) = NonRecordingSpan ?sc"
      by (simp add: p par v)
    have a4: "span_trace_id (spans (world s1) ?h) = tid"
      using tr v by (simp add: i)
    have a5: "span_parent (spans (world (?M Next s)) ?h) = span_parent (spans (world (Next s1)) ?h) \<and>
              span_trace_id (spans (world (?M Next s)) ?h) =
              span_trace_id (spans (world (Next s1)) ?h)" for Next
    proof -
      have "?M Next s = F (Next s1)"
        using del by (simp add: delegates_def)
      then show ?thesis
        using Fd Fi
        by (cases "IsUsingDefaultProvider E") (simp_all add: response_capture_frame End_def)
    qed
    from del F have "delegates (\<lambda>Next. ?M Next s) s1 ?F" by simp
    with a1 a2 a3 a4 a5 show ?thesis by blast
  qed
qed

theorem custom_trace_id_continues_trace_witness:
  "Get (Header (req (example_state [] [''Mf-X-Trace-Id'' \<mapsto> [''00000000000000000000000000000abc'']]
          ''hi'' None))) ''MF-X-TRACE-ID'' \<noteq> [] \<and>
   TraceIDFromHex example_env
     (Get (Header (req (example_state [] [''Mf-X-Trace-Id'' \<mapsto> [''00000000000000000000000000000abc'']]
          ''hi'' None))) ''MF-X-TRACE-ID'') = Inr 0xabc \<and>
   Value (Context (req (example_state [] [''Mf-X-Trace-Id'' \<mapsto> [''00000000000000000000000000000abc'']]
          ''hi'' None))) tracingMiddlewareHandled = NilV \<and>
   getSpanContext example_env []
     [''Mf-X-Trace-Id'' \<mapsto> [''00000000000000000000000000000abc'']] (example_world ''hi'' None) =
     (ContextWithSpan [] (NonRecordingSpan
        \<lparr>traceID = 0xabc, spanID = 7, traceFlags = 0, traceState = [], remote = True\<rparr>),
      (example_world ''hi'' None)\<lparr>idseq := 1\<rparr>) \<and>
   span_parent (spans (world (internalMiddlewareServerTracing example_env failing_handler
      (example_state [] [''Mf-X-Trace-Id'' \<mapsto> [''00000000000000000000000000000abc'']]
          ''hi'' None))) 0) =
     NonRecordingSpan
       \<lparr>traceID = 0xabc, spanID = 7, traceFlags = 0, traceState = [], remote = True\<rparr> \<and>
   span_trace_id (spans (world (internalMiddlewareServerTracing example_env failing_handler
      (example_state [] [''Mf-X-Trace-Id'' \<mapsto> [''00000000000000000000000000000abc'']]
          ''hi'' None))) 0) = 0xabc"
proof -
  let ?H = "[''Mf-X-Trace-Id'' \<mapsto> [''00000000000000000000000000000abc'']]"
  let ?S = "example_state [] ?H ''hi'' None"
  let ?sc = "\<lparr>traceID = 0xabc, spanID = 7, traceFlags = 0, traceState = [], remote = True\<rparr>"
  have hd: "Header (req ?S) = ?H"
    by (simp add: example_state_def example_request_def)
  have w: "nspans (world ?S) = 0" "idseq (world ?S) = 0" "GenSpanID example_env 0 = 7"
    by (simp_all add: example_state_def example_world_def example_env_def)
  have h1: "Get (Header (req ?S)) ''MF-X-TRACE-ID'' \<noteq> []"
    by (simp only: hd example_custom_header) simp
  have h2: "TraceIDFromHex example_env (Get (Header (req ?S)) ''MF-X-TRACE-ID'') = Inr 0xabc"
    by (simp only: hd example_custom_header) (simp add: example_env_def example_parse_valid)
  have h3: "Value (Context (req ?S)) tracingMiddlewareHandled = NilV"
    by (simp add: example_state_def example_request_def)
  note t = custom_trace_id_continues_trace[OF h1 h2 h3, of "[]" "example_world ''hi'' None"]
  from t have a: "getSpanContext example_env [] ?H (example_world ''hi'' None) =
     (ContextWithSpan [] (NonRecordingSpan ?sc), (example_world ''hi'' None)\<lparr>idseq := 1\<rparr>)"
    by (simp add: hd example_env_def example_world_def)
  from t obtain s1 where
    p: "span_parent (spans (world s1) (nspans (world ?S))) =
          NonRecordingSpan \<lparr>traceID = 0xabc, spanID = GenSpanID example_env (idseq (world ?S)),
            traceFlags = 0, traceState = [], remote = True\<rparr>"
    and i: "span_trace_id (spans (world s1) (nspans (world ?S))) = 0xabc"
    and f: "\<forall>Next.
       span_parent (spans (world (internalMiddlewareServerTracing example_env Next ?S)) (nspans (world ?S))) =
       span_parent (spans (world (Next s1)) (nspans (world ?S))) \<and>
       span_trace_id (spans (world (internalMiddlewareServerTracing example_env Next ?S)) (nspans (world ?S))) =
       span_trace_id (spans (world (Next s1)) (nspans (world ?S)))"
    by blast
  have fw: "world (failing_handler s1) = world s1"
    by (simp add: failing_handler_def)
  from f[rule_format, of failing_handler] p i
  have b: "span_parent (spans (world (internalMiddlewareServerTracing example_env failing_handler ?S)) 0) =
             NonRecordingSpan ?sc"
    and c: "span_trace_id (spans (world (internalMiddlewareServerTracing example_env failing_handler ?S)) 0) =
             0xabc"
    by (simp_all add: w fw)
  from h1 h2 h3 a b c show ?thesis by blast
qed

text \<open>
  C3. When the header \<^verbatim>\<open>MF-X-TRACE-ID\<close> is present and
  \<^verbatim>\<open>trace.TraceIDFromHex\<close> refuses its value, \<^verbatim>\<open>getSpanContext\<close> returns what the
  propagator extracts, and no error. For a propagator that does not read this header
  (the standard formats read their own headers only), that is what it extracts from the
  headers without \<^verbatim>\<open>MF-X-TRACE-ID\<close>, and what \<^verbatim>\<open>getSpanContext\<close> itself returns
  on them.
\<close>

theorem malformed_trace_id_falls_back:
  assumes hdr: "Get header ''MF-X-TRACE-ID'' \<noteq> []"
    and parse: "TraceIDFromHex E (Get header ''MF-X-TRACE-ID'') = Inl err"
    and std: "\<forall>c h v. Extract E c (h(CanonicalMIMEHeaderKey ''MF-X-TRACE-ID'' := v)) = Extract E c h"
  shows "getSpanContext E c header W = (Extract E c (Del header ''MF-X-TRACE-ID''), W) \<and>
         getSpanContext E c header W = getSpanContext E c (Del header ''MF-X-TRACE-ID'') W"
proof -
  have a: "getSpanContext E c header W = (Extract E c header, W)"
    using parse by (intro getSpanContext_fallback) blast
  have b: "getSpanContext E c (Del header ''MF-X-TRACE-ID'') W =
           (Extract E c (Del header ''MF-X-TRACE-ID''), W)"
    by (intro getSpanContext_fallback) (simp add: Get_Del_same)
  have "Extract E c (Del header ''MF-X-TRACE-ID'') = Extract E c header"
    using std by (simp add: Del_def)
  with a b show ?thesis by simp
qed

lemma example_Extract_standard:
  "\<forall>c h v. Extract example_env c (h(CanonicalMIMEHeaderKey ''MF-X-TRACE-ID'' := v)) =
           Extract example_env c h"
  by (simp add: example_env_def example_Extract_def Get_def canonical_trace_key
      canonical_traceparent_key)

theorem malformed_trace_id_falls_back_witness:
  "Get [''Mf-X-Trace-Id'' \<mapsto> [''not-a-trace-id''], ''Traceparent'' \<mapsto> [''00-ab-cd-01'']]
     ''MF-X-TRACE-ID'' \<noteq> [] \<and>
   TraceIDFromHex example_env
     (Get [''Mf-X-Trace-Id'' \<mapsto> [''not-a-trace-id''], ''Traceparent'' \<mapsto> [''00-ab-cd-01'']]
        ''MF-X-TRACE-ID'') = Inl ''hex encoded trace-id must have length equals to 32'' \<and>
   getSpanContext example_env []
     [''Mf-X-Trace-Id'' \<mapsto> [''not-a-trace-id''], ''Traceparent'' \<mapsto> [''00-ab-cd-01'']]
     (example_world ''hi'' None) =
   (Extract example_env []
      (Del [''Mf-X-Trace-Id'' \<mapsto> [''not-a-trace-id''], ''Traceparent'' \<mapsto> [''00-ab-cd-01'']]
         ''MF-X-TRACE-ID''),
    example_world ''hi'' None)"
proof -
  let ?H = "[''Mf-X-Trace-Id'' \<mapsto> [''not-a-trace-id''], ''Traceparent'' \<mapsto> [''00-ab-cd-01'']]"
  have g: "Get ?H ''MF-X-TRACE-ID'' = ''not-a-trace-id''"
    by (simp add: Get_def canonical_trace_key)
  have h1: "Get ?H ''MF-X-TRACE-ID'' \<noteq> []"
    by (simp only: g) simp
  have h2: "TraceIDFromHex example_env (Get ?H ''MF-X-TRACE-ID'') =
              Inl ''hex encoded trace-id must have length equals to 32''"
    by (simp only: g) (simp add: example_env_def example_parse_invalid)
  from malformed_trace_id_falls_back[OF h1 h2 example_Extract_standard,
      of "[]" "example_world ''hi'' None"] h1 h2
  show ?thesis by blast
qed

text \<open>
  C10. The remote parent \<^verbatim>\<open>getSpanContext\<close> builds from an accepted
  \<^verbatim>\<open>MF-X-TRACE-ID\<close> holds the parsed trace identifier and the generated span
  identifier and nothing else: the composite literal names no other field, so the trace
  flags are zero (not sampled) and the trace state is empty.
\<close>

theorem synthesized_parent_not_sampled:
  assumes hdr: "Get header ''MF-X-TRACE-ID'' \<noteq> []"
    and parse: "TraceIDFromHex E (Get header ''MF-X-TRACE-ID'') = Inr tid"
  shows "\<exists>sc. Value (fst (getSpanContext E c header W)) currentSpanKey = NonRecordingSpan sc \<and>
           traceID sc = tid \<and> spanID sc = GenSpanID E (idseq W) \<and>
           traceFlags sc = 0 \<and> traceState sc = [] \<and> \<not> IsSampled sc \<and> remote sc"
  by (simp add: getSpanContext_custom[OF hdr parse] ContextWithSpan_def WithValue_def
      IsSampled_def)

theorem synthesized_parent_not_sampled_witness:
  "Get [''Mf-X-Trace-Id'' \<mapsto> [''00000000000000000000000000000abc'']] ''MF-X-TRACE-ID'' \<noteq> [] \<and>
   TraceIDFromHex example_env
     (Get [''Mf-X-Trace-Id'' \<mapsto> [''00000000000000000000000000000abc'']] ''MF-X-TRACE-ID'') =
     Inr 0xabc \<and>
   (\<exists>sc. Value (fst (getSpanContext example_env []
                  [''Mf-X-Trace-Id'' \<mapsto> [''00000000000000000000000000000abc'']]
                  (example_world ''hi'' None))) currentSpanKey = NonRecordingSpan sc \<and>
           traceID sc = 0xabc \<and>
           spanID sc = GenSpanID example_env (idseq (example_world ''hi'' None)) \<and>
           traceFlags sc = 0 \<and> traceState sc = [] \<and> \<not> IsSampled sc \<and> remote sc)"
proof -
  let ?H = "[''Mf-X-Trace-Id'' \<mapsto> [''00000000000000000000000000000abc'']]"
  have h1: "Get ?H ''MF-X-TRACE-ID'' \<noteq> []"
    by (simp only: example_custom_header) simp
  have h2: "TraceIDFromHex example_env (Get ?H ''MF-X-TRACE-ID'') = Inr 0xabc"
    by (simp only: example_custom_header) (simp add: example_env_def example_parse_valid)
  from synthesized_parent_not_sampled[OF h1 h2, of "[]" "example_world ''hi'' None"] h1 h2
  show ?thesis by blast
qed

subsection \<open>The two paths after the span has been started\<close>

lemma fast_delegation:
  assumes g: "Value (Context (req s)) tracingMiddlewareHandled = NilV"
    and d: "IsUsingDefaultProvider E"
  obtains c1 W2 where
    "delegates (\<lambda>Next. internalMiddlewareServerTracing E Next s)
       \<lparr>req = (req s)\<lparr>Context := c1\<rparr>, world = W2\<rparr>
       (\<lambda>t. t\<lparr>world := End (world t) (nspans (world s))\<rparr>)"
    "Value c1 currentSpanKey = RecordingSpan (nspans (world s))"
    "nspans W2 = Suc (nspans (world s))"
    "\<not> span_ended (spans W2 (nspans (world s)))"
    "span_events (spans W2 (nspans (world s))) = []"
    "streams W2 = streams (world s)" "nstreams W2 = nstreams (world s)"
proof (rule delegated_state[OF g, of E])
  fix s1 F W1 pc
  let ?h = "nspans (world s)"
  assume del: "delegates (\<lambda>Next. internalMiddlewareServerTracing E Next s) s1 F"
    and Fd: "IsUsingDefaultProvider E \<Longrightarrow> F = (\<lambda>t. t\<lparr>world := End (world t) ?h\<rparr>)"
    and s1d: "IsUsingDefaultProvider E \<Longrightarrow>
       s1 = \<lparr>req = (req s)\<lparr>Context := ContextWithSpan pc (RecordingSpan ?h)\<rparr>,
             world = SetAttributes W1 ?h (CommonLabels E)\<rparr>"
    and b: "streams W1 = streams (world s)" "nstreams W1 = nstreams (world s)"
      "nspans W1 = Suc ?h" "span_events (spans W1 ?h) = []"
      "\<not> span_ended (spans W1 ?h)"
  show thesis
  proof (rule that[of "ContextWithSpan pc (RecordingSpan ?h)" "SetAttributes W1 ?h (CommonLabels E)"])
    show "delegates (\<lambda>Next. internalMiddlewareServerTracing E Next s)
       \<lparr>req = (req s)\<lparr>Context := ContextWithSpan pc (RecordingSpan ?h)\<rparr>,
         world = SetAttributes W1 ?h (CommonLabels E)\<rparr>
       (\<lambda>t. t\<lparr>world := End (world t) ?h\<rparr>)"
      using del Fd[OF d] s1d[OF d] by simp
  qed (simp_all add: b SetAttributes_frame ContextWithSpan_def WithValue_def)
qed

lemma instrumented_delegation:
  assumes g: "Value (Context (req s)) tracingMiddlewareHandled = NilV"
    and nd: "\<not> IsUsingDefaultProvider E"
  obtains s0 c1 where
    "delegates (\<lambda>Next. internalMiddlewareServerTracing E Next s)
       (request_capture E (nspans (world s)) c1 s0) (response_capture E (nspans (world s)))"
    "req s0 = (req s)\<lparr>Context := c1\<rparr>"
    "streams (world s0) = streams (world s)" "nstreams (world s0) = nstreams (world s)"
    "span_events (spans (world s0) (nspans (world s))) = []"
    "span_status (spans (world s0) (nspans (world s))) = (codes_Unset, [])"
proof (rule delegated_state[OF g, of E])
  fix s1 F W1 pc
  let ?h = "nspans (world s)"
  let ?c1 = "ContextWithSpan pc (RecordingSpan ?h)"
  let ?s0 = "\<lparr>req = (req s)\<lparr>Context := ?c1\<rparr>, world = SetAttributes W1 ?h (CommonLabels E)\<rparr>"
  assume del: "delegates (\<lambda>Next. internalMiddlewareServerTracing E Next s) s1 F"
    and Fi: "\<not> IsUsingDefaultProvider E \<Longrightarrow> F = response_capture E ?h"
    and s1i: "\<not> IsUsingDefaultProvider E \<Longrightarrow> s1 = request_capture E ?h ?c1 ?s0"
    and b: "streams W1 = streams (world s)" "nstreams W1 = nstreams (world s)"
      "span_events (spans W1 ?h) = []" "span_status (spans W1 ?h) = (codes_Unset, [])"
  show thesis
  proof (rule that[of ?c1 ?s0])
    show "delegates (\<lambda>Next. internalMiddlewareServerTracing E Next s)
       (request_capture E ?h ?c1 ?s0) (response_capture E ?h)"
      using del Fi[OF nd] s1i[OF nd] by simp
  qed (simp_all add: b SetAttributes_frame)
qed

text \<open>
  C4. With the default provider, on a request without the marker, the middleware starts
  its span, hands the request to the rest of the chain with nothing changed but the
  context (the body and its stream are untouched, the span has no event), and on return
  only ends the span: it records no event of its own.
\<close>

theorem default_provider_fast_path:
  assumes g: "Value (Context (req s)) tracingMiddlewareHandled = NilV"
    and d: "IsUsingDefaultProvider E"
  shows "\<exists>c1 W2.
           delegates (\<lambda>Next. internalMiddlewareServerTracing E Next s)
             \<lparr>req = (req s)\<lparr>Context := c1\<rparr>, world = W2\<rparr>
             (\<lambda>t. t\<lparr>world := End (world t) (nspans (world s))\<rparr>) \<and>
           Value c1 currentSpanKey = RecordingSpan (nspans (world s)) \<and>
           nspans W2 = Suc (nspans (world s)) \<and>
           \<not> span_ended (spans W2 (nspans (world s))) \<and>
           span_events (spans W2 (nspans (world s))) = [] \<and>
           streams W2 = streams (world s) \<and> nstreams W2 = nstreams (world s) \<and>
           (\<forall>Next.
              span_events (spans (world (internalMiddlewareServerTracing E Next s)) (nspans (world s))) =
              span_events (spans (world (Next \<lparr>req = (req s)\<lparr>Context := c1\<rparr>, world = W2\<rparr>))
                 (nspans (world s))) \<and>
              span_ended (spans (world (internalMiddlewareServerTracing E Next s)) (nspans (world s))))"
proof (rule fast_delegation[OF g d])
  fix c1 W2
  let ?h = "nspans (world s)"
  let ?s1 = "\<lparr>req = (req s)\<lparr>Context := c1\<rparr>, world = W2\<rparr>"
  assume del: "delegates (\<lambda>Next. internalMiddlewareServerTracing E Next s) ?s1
       (\<lambda>t. t\<lparr>world := End (world t) ?h\<rparr>)"
    and b: "Value c1 currentSpanKey = RecordingSpan ?h" "nspans W2 = Suc ?h"
      "\<not> span_ended (spans W2 ?h)" "span_events (spans W2 ?h) = []"
      "streams W2 = streams (world s)" "nstreams W2 = nstreams (world s)"
  have r: "internalMiddlewareServerTracing E Next s = (Next ?s1)\<lparr>world := End (world (Next ?s1)) ?h\<rparr>"
    for Next
    using del by (simp add: delegates_def)
  have "span_events (spans (world (internalMiddlewareServerTracing E Next s)) ?h) =
        span_events (spans (world (Next ?s1)) ?h) \<and>
        span_ended (spans (world (internalMiddlewareServerTracing E Next s)) ?h)" for Next
    by (simp add: r End_def)
  with del b show ?thesis by blast
qed

theorem default_provider_fast_path_witness:
  "Value (Context (req (example_state [] Map.empty ''hi'' None))) tracingMiddlewareHandled = NilV \<and>
   IsUsingDefaultProvider example_default_env \<and>
   span_events (spans (world (internalMiddlewareServerTracing example_default_env failing_handler
      (example_state [] Map.empty ''hi'' None))) 0) = [] \<and>
   span_ended (spans (world (internalMiddlewareServerTracing example_default_env failing_handler
      (example_state [] Map.empty ''hi'' None))) 0)"
proof -
  let ?S = "example_state [] Map.empty ''hi'' None"
  have h1: "Value (Context (req ?S)) tracingMiddlewareHandled = NilV"
    by (simp add: example_state_def example_request_def)
  have h2: "IsUsingDefaultProvider example_default_env"
    by (simp add: example_default_env_def)
  have n: "nspans (world ?S) = 0"
    by (simp add: example_state_def example_world_def)
  from default_provider_fast_path[OF h1 h2] obtain c1 W2 where
    ev: "span_events (spans W2 (nspans (world ?S))) = []"
    and a: "\<forall>Next.
       span_events (spans (world (internalMiddlewareServerTracing example_default_env Next ?S))
          (nspans (world ?S))) =
       span_events (spans (world (Next \<lparr>req = (req ?S)\<lparr>Context := c1\<rparr>, world = W2\<rparr>))
          (nspans (world ?S))) \<and>
       span_ended (spans (world (internalMiddlewareServerTracing example_default_env Next ?S))
          (nspans (world ?S)))"
    by blast
  from a[rule_format, of failing_handler] ev
  have "span_events (spans (world (internalMiddlewareServerTracing example_default_env
            failing_handler ?S)) 0) = [] \<and>
        span_ended (spans (world (internalMiddlewareServerTracing example_default_env
            failing_handler ?S)) 0)"
    by (simp add: n failing_handler_def)
  with h1 h2 show ?thesis by blast
qed

lemma attr_keys_distinct:
  "tracingEventHttpRequestBody \<noteq> tracingEventHttpRequestBaggage"
  "tracingEventHttpRequestBody \<noteq> tracingEventHttpRequestHeaders"
  "tracingEventHttpRequestBaggage \<noteq> tracingEventHttpRequestHeaders"
  "tracingEventHttpResponseBody \<noteq> tracingEventHttpResponseHeaders"
  "tracingEventHttpResponse \<noteq> tracingEventHttpRequest"
  by (simp_all add: tracingEventHttpRequestHeaders_def tracingEventHttpRequestBaggage_def
      tracingEventHttpRequestBody_def tracingEventHttpResponseHeaders_def
      tracingEventHttpResponseBody_def tracingEventHttpResponse_def tracingEventHttpRequest_def)

lemma request_event_captured:
  assumes "span_events (spans (world s0) h) = []"
    and "Get (Header (req s0)) ''Content-Encoding'' = []"
  shows "\<exists>kv. event_attrs (world (request_capture E h c s0)) h tracingEventHttpRequest = Some kv \<and>
           map_of kv tracingEventHttpRequestBody =
             Some (StrLimit (remaining (streams (world s0) (Body (req s0)))) (MaxContentLogSize E) ''...'')"
  using assms
  by (simp add: event_attrs_def request_capture_events attr_keys_distinct)

lemma request_event_encoded:
  assumes "span_events (spans (world s0) h) = []"
    and "Get (Header (req s0)) ''Content-Encoding'' \<noteq> []"
  shows "\<exists>kv. event_attrs (world (request_capture E h c s0)) h tracingEventHttpRequest = Some kv \<and>
           map_of kv tracingEventHttpRequestBody = None"
  using assms
  by (simp add: event_attrs_def request_capture_events attr_keys_distinct)

lemma response_event_captured:
  assumes "respEncoding (req t) = []"
  shows "\<exists>kv. event_attrs (world (response_capture E h t)) h tracingEventHttpResponse = Some kv \<and>
           map_of kv tracingEventHttpResponseBody =
             Some (StrLimit (BufferString (Response (req t))) (MaxContentLogSize E) ''...'')"
  using assms
  by (simp add: event_attrs_def response_capture_events attr_keys_distinct)

lemma response_event_encoded:
  assumes "respEncoding (req t) \<noteq> []"
  shows "\<exists>kv. event_attrs (world (response_capture E h t)) h tracingEventHttpResponse = Some kv \<and>
           map_of kv tracingEventHttpResponseBody = None"
  using assms
  by (simp add: event_attrs_def response_capture_events attr_keys_distinct)

lemma instrumented_request_side:
  assumes g: "Value (Context (req s)) tracingMiddlewareHandled = NilV"
    and nd: "\<not> IsUsingDefaultProvider E"
  obtains s1 where
    "delegates (\<lambda>Next. internalMiddlewareServerTracing E Next s) s1
       (response_capture E (nspans (world s)))"
    "GetError (req s1) = GetError (req s)"
    "span_status (spans (world s1) (nspans (world s))) = (codes_Unset, [])"
    "GetHeader (req s) ''Content-Encoding'' = [] \<Longrightarrow>
       \<exists>kv. event_attrs (world s1) (nspans (world s)) tracingEventHttpRequest = Some kv \<and>
            map_of kv tracingEventHttpRequestBody =
              Some (StrLimit (remaining (streams (world s) (Body (req s)))) (MaxContentLogSize E) ''...'')"
    "GetHeader (req s) ''Content-Encoding'' = [] \<Longrightarrow>
       streams (world s1) (Body (req s1)) =
         \<lparr>remaining = remaining (streams (world s) (Body (req s))), fail = None\<rparr>"
    "GetHeader (req s) ''Content-Encoding'' \<noteq> [] \<Longrightarrow>
       \<exists>kv. event_attrs (world s1) (nspans (world s)) tracingEventHttpRequest = Some kv \<and>
            map_of kv tracingEventHttpRequestBody = None"
    "GetHeader (req s) ''Content-Encoding'' \<noteq> [] \<Longrightarrow>
       Body (req s1) = Body (req s) \<and> streams (world s1) = streams (world s) \<and>
       nstreams (world s1) = nstreams (world s)"
proof (rule instrumented_delegation[OF g nd])
  fix s0 c1
  let ?h = "nspans (world s)"
  assume del: "delegates (\<lambda>Next. internalMiddlewareServerTracing E Next s)
       (request_capture E ?h c1 s0) (response_capture E ?h)"
    and r0: "req s0 = (req s)\<lparr>Context := c1\<rparr>"
    and st: "streams (world s0) = streams (world s)" "nstreams (world s0) = nstreams (world s)"
    and ev: "span_events (spans (world s0) ?h) = []"
    and su: "span_status (spans (world s0) ?h) = (codes_Unset, [])"
  have hd: "Get (Header (req s0)) ''Content-Encoding'' = GetHeader (req s) ''Content-Encoding''"
    by (simp add: r0 GetHeader_def)
  have bd: "Body (req s0) = Body (req s)"
    by (simp add: r0)
  show thesis
  proof (rule that[of "request_capture E ?h c1 s0", OF del])
    show "GetError (req (request_capture E ?h c1 s0)) = GetError (req s)"
      by (simp add: request_capture_def Let_def r0)
    show "span_status (spans (world (request_capture E ?h c1 s0)) ?h) = (codes_Unset, [])"
      by (simp add: request_capture_frame su)
    show "\<exists>kv. event_attrs (world (request_capture E ?h c1 s0)) ?h tracingEventHttpRequest = Some kv \<and>
            map_of kv tracingEventHttpRequestBody =
              Some (StrLimit (remaining (streams (world s) (Body (req s)))) (MaxContentLogSize E) ''...'')"
      if "GetHeader (req s) ''Content-Encoding'' = []"
      using request_event_captured[OF ev, of E c1] that by (simp add: hd st bd)
    show "streams (world (request_capture E ?h c1 s0)) (Body (req (request_capture E ?h c1 s0))) =
         \<lparr>remaining = remaining (streams (world s) (Body (req s))), fail = None\<rparr>"
      if "GetHeader (req s) ''Content-Encoding'' = []"
      using request_capture_body[of s0 E ?h c1] that by (simp add: hd st bd)
    show "\<exists>kv. event_attrs (world (request_capture E ?h c1 s0)) ?h tracingEventHttpRequest = Some kv \<and>
            map_of kv tracingEventHttpRequestBody = None"
      if "GetHeader (req s) ''Content-Encoding'' \<noteq> []"
      using request_event_encoded[OF ev, of E c1] that by (simp add: hd)
    show "Body (req (request_capture E ?h c1 s0)) = Body (req s) \<and>
          streams (world (request_capture E ?h c1 s0)) = streams (world s) \<and>
          nstreams (world (request_capture E ?h c1 s0)) = nstreams (world s)"
      if "GetHeader (req s) ''Content-Encoding'' \<noteq> []"
      using request_capture_encoded[of s0 E ?h c1] that by (simp add: hd st bd)
  qed
qed

lemma delegatesD: "delegates M s1 F \<Longrightarrow> M Next = F (Next s1)"
  by (simp add: delegates_def)

text \<open>
  C5. When the middleware captures the body of a request (no \<^verbatim>\<open>Content-Encoding\<close>,
  a provider that is not the default one), the request it hands to the rest of the chain
  has a body that delivers exactly the bytes the body it received delivers, and ends with
  a plain end of file. The limit on the logged size does not touch it.
\<close>

theorem request_body_restored:
  assumes g: "Value (Context (req s)) tracingMiddlewareHandled = NilV"
    and nd: "\<not> IsUsingDefaultProvider E"
    and enc: "GetHeader (req s) ''Content-Encoding'' = []"
  shows "\<exists>s1. delegates (\<lambda>Next. internalMiddlewareServerTracing E Next s) s1
                (response_capture E (nspans (world s))) \<and>
              fst (ReadAll (world s1) (Body (req s1))) = fst (ReadAll (world s) (Body (req s))) \<and>
              fst (snd (ReadAll (world s1) (Body (req s1)))) = None"
proof (rule instrumented_request_side[OF g nd])
  fix s1
  assume del: "delegates (\<lambda>Next. internalMiddlewareServerTracing E Next s) s1
                (response_capture E (nspans (world s)))"
    and b: "GetHeader (req s) ''Content-Encoding'' = [] \<Longrightarrow>
       streams (world s1) (Body (req s1)) =
         \<lparr>remaining = remaining (streams (world s) (Body (req s))), fail = None\<rparr>"
  from b[OF enc] have "fst (ReadAll (world s1) (Body (req s1))) = fst (ReadAll (world s) (Body (req s)))"
    and "fst (snd (ReadAll (world s1) (Body (req s1)))) = None"
    by (simp_all add: ReadAll_def Let_def)
  with del show ?thesis by blast
qed

lemma example_fresh:
  "Value (Context (req (example_state [] h body e))) tracingMiddlewareHandled = NilV"
  "\<not> IsUsingDefaultProvider example_env"
  "nspans (world (example_state c h body e)) = 0"
  "fst (ReadAll (world (example_state c h body e)) (Body (req (example_state c h body e)))) = body"
  "fst (snd (ReadAll (world (example_state c h body e)) (Body (req (example_state c h body e))))) = e"
  "remaining (streams (world (example_state c h body e)) (Body (req (example_state c h body e)))) = body"
  "MaxContentLogSize example_env = 4"
  by (simp_all add: example_state_def example_request_def example_world_def example_env_def
      ReadAll_def Let_def)

lemma example_no_encoding:
  "GetHeader (req (example_state c Map.empty body e)) ''Content-Encoding'' = []"
  by (simp add: example_state_def example_request_def GetHeader_def Get_def)

lemma example_gzip:
  "GetHeader (req (example_state c [''Content-Encoding'' \<mapsto> [''gzip'']] body e))
     ''Content-Encoding'' = ''gzip''"
  "Get [''Content-Encoding'' \<mapsto> [''gzip'']] ''Content-Encoding'' = ''gzip''"
  by (simp_all add: example_state_def example_request_def GetHeader_def Get_def
      canonical_encoding_key)

theorem request_body_restored_witness:
  "Value (Context (req (example_state [] Map.empty ''hello world'' None)))
     tracingMiddlewareHandled = NilV \<and>
   \<not> IsUsingDefaultProvider example_env \<and>
   GetHeader (req (example_state [] Map.empty ''hello world'' None)) ''Content-Encoding'' = [] \<and>
   (\<exists>s1. delegates (\<lambda>Next. internalMiddlewareServerTracing example_env Next
                 (example_state [] Map.empty ''hello world'' None)) s1
             (response_capture example_env 0) \<and>
          fst (ReadAll (world s1) (Body (req s1))) = ''hello world'' \<and>
          fst (snd (ReadAll (world s1) (Body (req s1)))) = None)"
  using request_body_restored[OF example_fresh(1) example_fresh(2) example_no_encoding,
      of "''hello world''" None]
  by (simp add: example_fresh example_no_encoding)

lemma StrLimit_cases:
  "StrLimit str n suffix = (if n < length str then take n str @ suffix else str)"
  by (simp add: StrLimit_def)

text \<open>
  C6. On the instrumented path, the body attribute of the \<^verbatim>\<open>http.request\<close> event
  (recorded when the request has no \<^verbatim>\<open>Content-Encoding\<close>) and the body attribute of
  the \<^verbatim>\<open>http.response\<close> event (recorded when the response has none) are the body
  itself when its length is at most \<^verbatim>\<open>MaxContentLogSize\<close>, and its first
  \<^verbatim>\<open>MaxContentLogSize\<close> bytes followed by \<^verbatim>\<open>...\<close> when it is longer.
\<close>

theorem body_attribute_truncation:
  assumes g: "Value (Context (req s)) tracingMiddlewareHandled = NilV"
    and nd: "\<not> IsUsingDefaultProvider E"
  shows "\<exists>s1. delegates (\<lambda>Next. internalMiddlewareServerTracing E Next s) s1
                (response_capture E (nspans (world s))) \<and>
           (GetHeader (req s) ''Content-Encoding'' = [] \<longrightarrow>
              (\<exists>kv. event_attrs (world s1) (nspans (world s)) tracingEventHttpRequest = Some kv \<and>
                 map_of kv tracingEventHttpRequestBody =
                   Some (if MaxContentLogSize E < length (fst (ReadAll (world s) (Body (req s))))
                         then take (MaxContentLogSize E) (fst (ReadAll (world s) (Body (req s)))) @ ''...''
                         else fst (ReadAll (world s) (Body (req s)))))) \<and>
           (\<forall>Next. respEncoding (req (Next s1)) = [] \<longrightarrow>
              (\<exists>kv. event_attrs (world (internalMiddlewareServerTracing E Next s)) (nspans (world s))
                      tracingEventHttpResponse = Some kv \<and>
                 map_of kv tracingEventHttpResponseBody =
                   Some (if MaxContentLogSize E < length (BufferString (Response (req (Next s1))))
                         then take (MaxContentLogSize E) (BufferString (Response (req (Next s1)))) @ ''...''
                         else BufferString (Response (req (Next s1))))))"
proof (rule instrumented_request_side[OF g nd])
  fix s1
  let ?h = "nspans (world s)"
  assume del: "delegates (\<lambda>Next. internalMiddlewareServerTracing E Next s) s1 (response_capture E ?h)"
    and rq: "GetHeader (req s) ''Content-Encoding'' = [] \<Longrightarrow>
       \<exists>kv. event_attrs (world s1) ?h tracingEventHttpRequest = Some kv \<and>
            map_of kv tracingEventHttpRequestBody =
              Some (StrLimit (remaining (streams (world s) (Body (req s)))) (MaxContentLogSize E) ''...'')"
  have rd: "fst (ReadAll (world s) (Body (req s))) = remaining (streams (world s) (Body (req s)))"
    by (simp add: ReadAll_def Let_def)
  have a: "\<exists>kv. event_attrs (world s1) ?h tracingEventHttpRequest = Some kv \<and>
                 map_of kv tracingEventHttpRequestBody =
                   Some (if MaxContentLogSize E < length (fst (ReadAll (world s) (Body (req s))))
                         then take (MaxContentLogSize E) (fst (ReadAll (world s) (Body (req s)))) @ ''...''
                         else fst (ReadAll (world s) (Body (req s))))"
    if "GetHeader (req s) ''Content-Encoding'' = []"
    using rq[OF that] unfolding StrLimit_cases rd by assumption
  have b: "\<exists>kv. event_attrs (world (internalMiddlewareServerTracing E Next s)) ?h
                      tracingEventHttpResponse = Some kv \<and>
                 map_of kv tracingEventHttpResponseBody =
                   Some (if MaxContentLogSize E < length (BufferString (Response (req (Next s1))))
                         then take (MaxContentLogSize E) (BufferString (Response (req (Next s1)))) @ ''...''
                         else BufferString (Response (req (Next s1))))"
    if "respEncoding (req (Next s1)) = []" for Next
    using response_event_captured[OF that, of E ?h]
    by (simp add: delegatesD[OF del] StrLimit_cases)
  from del a b show ?thesis by blast
qed

lemma failing_handler_response:
  "respEncoding (req (failing_handler t)) = []"
  "BufferString (Response (req (failing_handler t))) = ''Internal Error''"
  "GetError (req (failing_handler t)) = Some ''boom''"
  "world (failing_handler t) = world t"
  by (simp_all add: failing_handler_def respEncoding_def Get_def)

lemma example_handler_response:
  "respEncoding (req (example_handler [''Content-Encoding'' \<mapsto> [''gzip'']] out t)) = ''gzip''"
  "GetError (req (example_handler h out t)) = GetError (req t)"
  "world (example_handler h out t) = world t"
  by (simp_all add: example_handler_def respEncoding_def example_gzip)

theorem body_attribute_truncation_witness:
  "Value (Context (req (example_state [] Map.empty ''hello world'' None)))
     tracingMiddlewareHandled = NilV \<and>
   \<not> IsUsingDefaultProvider example_env \<and>
   (\<exists>s1. delegates (\<lambda>Next. internalMiddlewareServerTracing example_env Next
                 (example_state [] Map.empty ''hello world'' None)) s1
             (response_capture example_env 0) \<and>
          (\<exists>kv. event_attrs (world s1) 0 tracingEventHttpRequest = Some kv \<and>
                 map_of kv tracingEventHttpRequestBody = Some ''hell...'') \<and>
          respEncoding (req (failing_handler s1)) = []) \<and>
   (\<exists>kv. event_attrs (world (internalMiddlewareServerTracing example_env failing_handler
              (example_state [] Map.empty ''hello world'' None))) 0
            tracingEventHttpResponse = Some kv \<and>
          map_of kv tracingEventHttpResponseBody = Some ''Inte...'')"
proof -
  let ?S = "example_state [] Map.empty ''hello world'' None"
  from body_attribute_truncation[OF example_fresh(1) example_fresh(2), of Map.empty "''hello world''" None]
  obtain s1 where
    d: "delegates (\<lambda>Next. internalMiddlewareServerTracing example_env Next ?S) s1
          (response_capture example_env (nspans (world ?S)))"
    and a: "GetHeader (req ?S) ''Content-Encoding'' = [] \<longrightarrow>
         (\<exists>kv. event_attrs (world s1) (nspans (world ?S)) tracingEventHttpRequest = Some kv \<and>
            map_of kv tracingEventHttpRequestBody =
              Some (if MaxContentLogSize example_env < length (fst (ReadAll (world ?S) (Body (req ?S))))
                    then take (MaxContentLogSize example_env) (fst (ReadAll (world ?S) (Body (req ?S)))) @ ''...''
                    else fst (ReadAll (world ?S) (Body (req ?S)))))"
    and b: "\<forall>Next. respEncoding (req (Next s1)) = [] \<longrightarrow>
         (\<exists>kv. event_attrs (world (internalMiddlewareServerTracing example_env Next ?S)) (nspans (world ?S))
                  tracingEventHttpResponse = Some kv \<and>
            map_of kv tracingEventHttpResponseBody =
              Some (if MaxContentLogSize example_env < length (BufferString (Response (req (Next s1))))
                    then take (MaxContentLogSize example_env) (BufferString (Response (req (Next s1)))) @ ''...''
                    else BufferString (Response (req (Next s1)))))"
    by blast
  from a have a': "\<exists>kv. event_attrs (world s1) 0 tracingEventHttpRequest = Some kv \<and>
                 map_of kv tracingEventHttpRequestBody = Some ''hell...''"
    by (simp add: example_fresh example_no_encoding)
  from b[rule_format, of failing_handler]
  have b': "\<exists>kv. event_attrs (world (internalMiddlewareServerTracing example_env failing_handler ?S)) 0
            tracingEventHttpResponse = Some kv \<and>
          map_of kv tracingEventHttpResponseBody = Some ''Inte...''"
    by (simp add: example_fresh failing_handler_response)
  from d have d': "delegates (\<lambda>Next. internalMiddlewareServerTracing example_env Next ?S) s1
          (response_capture example_env 0)"
    by (simp add: example_fresh)
  from d' a' b' example_fresh(1)[of Map.empty "''hello world''" None] example_fresh(2)
    failing_handler_response(1)[of s1]
  show ?thesis by blast
qed

text \<open>
  C7. On the instrumented path, a request with a \<^verbatim>\<open>Content-Encoding\<close> gets an
  \<^verbatim>\<open>http.request\<close> event without a body attribute, and its body is not read: the
  request hands on the same body handle and no stream has changed or been created. A
  response with a \<^verbatim>\<open>Content-Encoding\<close> gets an \<^verbatim>\<open>http.response\<close> event without a
  body attribute. Neither depends on the size of the body.
\<close>

theorem encoded_body_skipped:
  assumes g: "Value (Context (req s)) tracingMiddlewareHandled = NilV"
    and nd: "\<not> IsUsingDefaultProvider E"
  shows "\<exists>s1. delegates (\<lambda>Next. internalMiddlewareServerTracing E Next s) s1
                (response_capture E (nspans (world s))) \<and>
           (GetHeader (req s) ''Content-Encoding'' \<noteq> [] \<longrightarrow>
              (\<exists>kv. event_attrs (world s1) (nspans (world s)) tracingEventHttpRequest = Some kv \<and>
                 map_of kv tracingEventHttpRequestBody = None) \<and>
              Body (req s1) = Body (req s) \<and> streams (world s1) = streams (world s) \<and>
              nstreams (world s1) = nstreams (world s)) \<and>
           (\<forall>Next. respEncoding (req (Next s1)) \<noteq> [] \<longrightarrow>
              (\<exists>kv. event_attrs (world (internalMiddlewareServerTracing E Next s)) (nspans (world s))
                      tracingEventHttpResponse = Some kv \<and>
                 map_of kv tracingEventHttpResponseBody = None))"
proof (rule instrumented_request_side[OF g nd])
  fix s1
  let ?h = "nspans (world s)"
  assume del: "delegates (\<lambda>Next. internalMiddlewareServerTracing E Next s) s1 (response_capture E ?h)"
    and rq: "GetHeader (req s) ''Content-Encoding'' \<noteq> [] \<Longrightarrow>
       \<exists>kv. event_attrs (world s1) ?h tracingEventHttpRequest = Some kv \<and>
            map_of kv tracingEventHttpRequestBody = None"
    and st: "GetHeader (req s) ''Content-Encoding'' \<noteq> [] \<Longrightarrow>
       Body (req s1) = Body (req s) \<and> streams (world s1) = streams (world s) \<and>
       nstreams (world s1) = nstreams (world s)"
  have b: "\<exists>kv. event_attrs (world (internalMiddlewareServerTracing E Next s)) ?h
                      tracingEventHttpResponse = Some kv \<and>
                 map_of kv tracingEventHttpResponseBody = None"
    if "respEncoding (req (Next s1)) \<noteq> []" for Next
    using response_event_encoded[OF that, of E ?h] by (simp add: delegatesD[OF del])
  from del rq st b show ?thesis by blast
qed

theorem encoded_body_skipped_witness:
  "Value (Context (req (example_state [] [''Content-Encoding'' \<mapsto> [''gzip'']] ''hello world'' None)))
     tracingMiddlewareHandled = NilV \<and>
   \<not> IsUsingDefaultProvider example_env \<and>
   GetHeader (req (example_state [] [''Content-Encoding'' \<mapsto> [''gzip'']] ''hello world'' None))
     ''Content-Encoding'' \<noteq> [] \<and>
   (\<exists>s1. delegates (\<lambda>Next. internalMiddlewareServerTracing example_env Next
                 (example_state [] [''Content-Encoding'' \<mapsto> [''gzip'']] ''hello world'' None)) s1
             (response_capture example_env 0) \<and>
          (\<exists>kv. event_attrs (world s1) 0 tracingEventHttpRequest = Some kv \<and>
                 map_of kv tracingEventHttpRequestBody = None) \<and>
          Body (req s1) = 0 \<and>
          respEncoding (req (example_handler [''Content-Encoding'' \<mapsto> [''gzip'']] ''zipped'' s1)) \<noteq> []) \<and>
   (\<exists>kv. event_attrs (world (internalMiddlewareServerTracing example_env
              (example_handler [''Content-Encoding'' \<mapsto> [''gzip'']] ''zipped'')
              (example_state [] [''Content-Encoding'' \<mapsto> [''gzip'']] ''hello world'' None))) 0
            tracingEventHttpResponse = Some kv \<and>
          map_of kv tracingEventHttpResponseBody = None)"
proof -
  let ?H = "[''Content-Encoding'' \<mapsto> [''gzip'']]"
  let ?S = "example_state [] ?H ''hello world'' None"
  have e: "GetHeader (req ?S) ''Content-Encoding'' \<noteq> []"
    by (simp add: example_gzip)
  have bd: "Body (req ?S) = 0"
    by (simp add: example_state_def example_request_def)
  from encoded_body_skipped[OF example_fresh(1) example_fresh(2), of ?H "''hello world''" None]
  obtain s1 where
    d: "delegates (\<lambda>Next. internalMiddlewareServerTracing example_env Next ?S) s1
          (response_capture example_env (nspans (world ?S)))"
    and a: "GetHeader (req ?S) ''Content-Encoding'' \<noteq> [] \<longrightarrow>
         (\<exists>kv. event_attrs (world s1) (nspans (world ?S)) tracingEventHttpRequest = Some kv \<and>
            map_of kv tracingEventHttpRequestBody = None) \<and>
         Body (req s1) = Body (req ?S) \<and> streams (world s1) = streams (world ?S) \<and>
         nstreams (world s1) = nstreams (world ?S)"
    and b: "\<forall>Next. respEncoding (req (Next s1)) \<noteq> [] \<longrightarrow>
         (\<exists>kv. event_attrs (world (internalMiddlewareServerTracing example_env Next ?S)) (nspans (world ?S))
                  tracingEventHttpResponse = Some kv \<and>
            map_of kv tracingEventHttpResponseBody = None)"
    by blast
  have r: "respEncoding (req (example_handler ?H ''zipped'' s1)) \<noteq> []"
    by (simp add: example_handler_response)
  from a e have a': "(\<exists>kv. event_attrs (world s1) 0 tracingEventHttpRequest = Some kv \<and>
                 map_of kv tracingEventHttpRequestBody = None) \<and> Body (req s1) = 0"
    by (simp add: example_fresh bd)
  from b[rule_format, of "example_handler ?H ''zipped''", OF r]
  have b': "\<exists>kv. event_attrs (world (internalMiddlewareServerTracing example_env
              (example_handler ?H ''zipped'') ?S)) 0 tracingEventHttpResponse = Some kv \<and>
          map_of kv tracingEventHttpResponseBody = None"
    by (simp add: example_fresh)
  from d have d': "delegates (\<lambda>Next. internalMiddlewareServerTracing example_env Next ?S) s1
          (response_capture example_env 0)"
    by (simp add: example_fresh)
  from d' a' b' r e example_fresh(1)[of ?H "''hello world''" None] example_fresh(2)
  show ?thesis by blast
qed

text \<open>
  C8. On the instrumented path the middleware hands the span on with its status unset.
  When the request holds an error after the rest of the chain has run, the span's status
  on return is \<^verbatim>\<open>codes.Error\<close> with the error formatted by \<^verbatim>\<open>%+v\<close>; when it
  holds none, the middleware leaves the status as the chain returned it.
\<close>

theorem handler_error_sets_status:
  assumes g: "Value (Context (req s)) tracingMiddlewareHandled = NilV"
    and nd: "\<not> IsUsingDefaultProvider E"
  shows "\<exists>s1. delegates (\<lambda>Next. internalMiddlewareServerTracing E Next s) s1
                (response_capture E (nspans (world s))) \<and>
           span_status (spans (world s1) (nspans (world s))) = (codes_Unset, []) \<and>
           (\<forall>Next.
              span_status (spans (world (internalMiddlewareServerTracing E Next s)) (nspans (world s))) =
                (case GetError (req (Next s1)) of
                   Some err \<Rightarrow> (codes_Error, Sprintf_v E err)
                 | None \<Rightarrow> span_status (spans (world (Next s1)) (nspans (world s)))))"
proof (rule instrumented_request_side[OF g nd])
  fix s1
  let ?h = "nspans (world s)"
  assume del: "delegates (\<lambda>Next. internalMiddlewareServerTracing E Next s) s1 (response_capture E ?h)"
    and su: "span_status (spans (world s1) ?h) = (codes_Unset, [])"
  have "span_status (spans (world (internalMiddlewareServerTracing E Next s)) ?h) =
          (case GetError (req (Next s1)) of
             Some err \<Rightarrow> (codes_Error, Sprintf_v E err)
           | None \<Rightarrow> span_status (spans (world (Next s1)) ?h))" for Next
    by (simp add: delegatesD[OF del] response_capture_status)
  with del su show ?thesis by blast
qed

theorem handler_error_sets_status_witness:
  "Value (Context (req (example_state [] Map.empty ''hello world'' None)))
     tracingMiddlewareHandled = NilV \<and>
   \<not> IsUsingDefaultProvider example_env \<and>
   span_status (spans (world (internalMiddlewareServerTracing example_env failing_handler
      (example_state [] Map.empty ''hello world'' None))) 0) = (codes_Error, ''boom'') \<and>
   span_status (spans (world (internalMiddlewareServerTracing example_env
      (example_handler Map.empty ''ok'')
      (example_state [] Map.empty ''hello world'' None))) 0) = (codes_Unset, [])"
proof -
  let ?S = "example_state [] Map.empty ''hello world'' None"
  from handler_error_sets_status[OF example_fresh(1) example_fresh(2), of Map.empty "''hello world''" None]
  obtain s1 where
    su: "span_status (spans (world s1) (nspans (world ?S))) = (codes_Unset, [])"
    and a: "\<forall>Next.
       span_status (spans (world (internalMiddlewareServerTracing example_env Next ?S)) (nspans (world ?S))) =
         (case GetError (req (Next s1)) of
            Some err \<Rightarrow> (codes_Error, Sprintf_v example_env err)
          | None \<Rightarrow> span_status (spans (world (Next s1)) (nspans (world ?S))))"
    by blast
  have ge: "GetError (req s1) = None \<Longrightarrow>
     GetError (req (example_handler Map.empty ''ok'' s1)) = None"
    by (simp add: example_handler_response)
  have sp: "Sprintf_v example_env ''boom'' = ''boom''"
    by (simp add: example_env_def)
  from a[rule_format, of failing_handler]
  have b: "span_status (spans (world (internalMiddlewareServerTracing example_env failing_handler ?S)) 0) =
             (codes_Error, ''boom'')"
    by (simp add: example_fresh failing_handler_response sp)
  have c: "span_status (spans (world (internalMiddlewareServerTracing example_env
             (example_handler Map.empty ''ok'') ?S)) 0) = (codes_Unset, [])"
  proof (rule instrumented_request_side[OF example_fresh(1) example_fresh(2),
        of Map.empty "''hello world''" None])
    fix s2
    assume del: "delegates (\<lambda>Next. internalMiddlewareServerTracing example_env Next ?S) s2
                   (response_capture example_env (nspans (world ?S)))"
      and e2: "GetError (req s2) = GetError (req ?S)"
      and u2: "span_status (spans (world s2) (nspans (world ?S))) = (codes_Unset, [])"
    have "GetError (req ?S) = None"
      by (simp add: example_state_def example_request_def)
    with e2 u2 show ?thesis
      by (simp add: delegatesD[OF del] response_capture_status example_handler_response
          example_fresh)
  qed
  from b c example_fresh(1)[of Map.empty "''hello world''" None] example_fresh(2)
  show ?thesis by blast
qed

text \<open>
  C9, as the code has it. Line 89 drops the error of \<^verbatim>\<open>ioutil.ReadAll\<close>, and line 91
  adds the body attribute whatever the read returned. So when the read of the body fails
  (no \<^verbatim>\<open>Content-Encoding\<close>, instrumented path), the \<^verbatim>\<open>http.request\<close> event still
  has a body attribute: the bytes read before the failure, cut to the size limit. The
  error goes nowhere: the request's error slot is as it was, the rest of the chain is
  run, and the body it receives delivers the bytes that were read and then ends with a
  plain end of file.
\<close>

theorem read_failure_keeps_partial_body:
  assumes g: "Value (Context (req s)) tracingMiddlewareHandled = NilV"
    and nd: "\<not> IsUsingDefaultProvider E"
    and enc: "GetHeader (req s) ''Content-Encoding'' = []"
    and rd: "fst (snd (ReadAll (world s) (Body (req s)))) = Some e"
  shows "\<exists>s1. delegates (\<lambda>Next. internalMiddlewareServerTracing E Next s) s1
                (response_capture E (nspans (world s))) \<and>
           (\<exists>kv. event_attrs (world s1) (nspans (world s)) tracingEventHttpRequest = Some kv \<and>
              map_of kv tracingEventHttpRequestBody =
                Some (StrLimit (fst (ReadAll (world s) (Body (req s)))) (MaxContentLogSize E) ''...'')) \<and>
           GetError (req s1) = GetError (req s) \<and>
           fst (ReadAll (world s1) (Body (req s1))) = fst (ReadAll (world s) (Body (req s))) \<and>
           fst (snd (ReadAll (world s1) (Body (req s1)))) = None"
proof (rule instrumented_request_side[OF g nd])
  fix s1
  let ?h = "nspans (world s)"
  assume del: "delegates (\<lambda>Next. internalMiddlewareServerTracing E Next s) s1 (response_capture E ?h)"
    and ge: "GetError (req s1) = GetError (req s)"
    and rq: "GetHeader (req s) ''Content-Encoding'' = [] \<Longrightarrow>
       \<exists>kv. event_attrs (world s1) ?h tracingEventHttpRequest = Some kv \<and>
            map_of kv tracingEventHttpRequestBody =
              Some (StrLimit (remaining (streams (world s) (Body (req s)))) (MaxContentLogSize E) ''...'')"
    and b: "GetHeader (req s) ''Content-Encoding'' = [] \<Longrightarrow>
       streams (world s1) (Body (req s1)) =
         \<lparr>remaining = remaining (streams (world s) (Body (req s))), fail = None\<rparr>"
  have r: "fst (ReadAll (world s) (Body (req s))) = remaining (streams (world s) (Body (req s)))"
    by (simp add: ReadAll_def Let_def)
  from b[OF enc] have "fst (ReadAll (world s1) (Body (req s1))) = fst (ReadAll (world s) (Body (req s)))"
    and "fst (snd (ReadAll (world s1) (Body (req s1)))) = None"
    by (simp_all add: ReadAll_def Let_def)
  with del ge rq[OF enc] show ?thesis unfolding r by blast
qed

theorem read_failure_keeps_partial_body_witness:
  "Value (Context (req (example_state [] Map.empty ''partial'' (Some ''unexpected EOF''))))
     tracingMiddlewareHandled = NilV \<and>
   \<not> IsUsingDefaultProvider example_env \<and>
   GetHeader (req (example_state [] Map.empty ''partial'' (Some ''unexpected EOF'')))
     ''Content-Encoding'' = [] \<and>
   fst (snd (ReadAll (world (example_state [] Map.empty ''partial'' (Some ''unexpected EOF'')))
     (Body (req (example_state [] Map.empty ''partial'' (Some ''unexpected EOF'')))))) =
     Some ''unexpected EOF'' \<and>
   (\<exists>s1. delegates (\<lambda>Next. internalMiddlewareServerTracing example_env Next
                 (example_state [] Map.empty ''partial'' (Some ''unexpected EOF''))) s1
             (response_capture example_env 0) \<and>
          (\<exists>kv. event_attrs (world s1) 0 tracingEventHttpRequest = Some kv \<and>
                 map_of kv tracingEventHttpRequestBody = Some ''part...'') \<and>
          fst (ReadAll (world s1) (Body (req s1))) = ''partial'' \<and>
          fst (snd (ReadAll (world s1) (Body (req s1)))) = None)"
proof -
  have rd: "fst (snd (ReadAll (world (example_state [] Map.empty ''partial'' (Some ''unexpected EOF'')))
     (Body (req (example_state [] Map.empty ''partial'' (Some ''unexpected EOF'')))))) =
     Some ''unexpected EOF''"
    by (simp add: example_fresh)
  from read_failure_keeps_partial_body[OF example_fresh(1) example_fresh(2) example_no_encoding rd]
  show ?thesis
    by (simp add: example_fresh example_no_encoding StrLimit_def) blast
qed

text \<open>
  The claim C9 as the spec states it (the body attribute is omitted when the read fails)
  does not hold: on a body that delivers \<^verbatim>\<open>partial\<close> and then fails, with a size limit
  of 4, the \<^verbatim>\<open>http.request\<close> event of the returned span has the body attribute
  \<^verbatim>\<open>part...\<close>.
\<close>

theorem read_failure_omits_body_counterexample:
  "Value (Context (req (example_state [] Map.empty ''partial'' (Some ''unexpected EOF''))))
     tracingMiddlewareHandled = NilV \<and>
   \<not> IsUsingDefaultProvider example_env \<and>
   GetHeader (req (example_state [] Map.empty ''partial'' (Some ''unexpected EOF'')))
     ''Content-Encoding'' = [] \<and>
   fst (snd (ReadAll (world (example_state [] Map.empty ''partial'' (Some ''unexpected EOF'')))
     (Body (req (example_state [] Map.empty ''partial'' (Some ''unexpected EOF'')))))) =
     Some ''unexpected EOF'' \<and>
   event_attrs (world (internalMiddlewareServerTracing example_env failing_handler
      (example_state [] Map.empty ''partial'' (Some ''unexpected EOF'')))) 0
      tracingEventHttpRequest =
     Some [(tracingEventHttpRequestHeaders, []),
           (tracingEventHttpRequestBaggage, ''map[]''),
           (tracingEventHttpRequestBody, ''part...'')]"
proof -
  let ?S = "example_state [] Map.empty ''partial'' (Some ''unexpected EOF'')"
  have ev: "event_attrs (world (internalMiddlewareServerTracing example_env failing_handler ?S)) 0
      tracingEventHttpRequest =
     Some [(tracingEventHttpRequestHeaders, []),
           (tracingEventHttpRequestBaggage, ''map[]''),
           (tracingEventHttpRequestBody, ''part...'')]"
  proof (rule instrumented_delegation[OF example_fresh(1) example_fresh(2),
        of Map.empty "''partial''" "Some ''unexpected EOF''"])
    fix s0 c1
    assume del: "delegates (\<lambda>Next. internalMiddlewareServerTracing example_env Next ?S)
       (request_capture example_env (nspans (world ?S)) c1 s0)
       (response_capture example_env (nspans (world ?S)))"
      and r0: "req s0 = (req ?S)\<lparr>Context := c1\<rparr>"
      and st: "streams (world s0) = streams (world ?S)"
      and e0: "span_events (spans (world s0) (nspans (world ?S))) = []"
    have hd: "Header (req s0) = Map.empty" "Body (req s0) = 0"
      by (simp_all add: r0 example_state_def example_request_def)
    have bd: "remaining (streams (world s0) 0) = ''partial''"
      by (simp add: st example_state_def example_world_def)
    have e1: "span_events (spans (world (request_capture example_env 0 c1 s0)) 0) =
        [(tracingEventHttpRequest,
          [(tracingEventHttpRequestHeaders, []),
           (tracingEventHttpRequestBaggage, ''map[]''),
           (tracingEventHttpRequestBody, ''part...'')])]"
      using e0
      by (simp add: request_capture_events hd bd example_fresh Get_def StrLimit_def example_env_def)
    show ?thesis
      by (simp add: delegatesD[OF del] example_fresh event_attrs_def response_capture_events
          failing_handler_response e1 attr_keys_distinct attr_keys_distinct(5)[symmetric])
  qed
  from ev example_fresh(1)[of Map.empty "''partial''" "Some ''unexpected EOF''"] example_fresh(2)
    example_no_encoding[of "[]" "''partial''" "Some ''unexpected EOF''"]
    example_fresh(5)[of "[]" Map.empty "''partial''" "Some ''unexpected EOF''"]
  show ?thesis by blast
qed

end
